theory Spec2Isabelle
  imports Complex_Main
begin

section \<open>Errors raised by the program and its libraries\<close>

text \<open>
  Every exception that the modelled code can raise is a value. A function that can raise
  returns \<open>error + 'a\<close>, with \<open>Inl\<close> for the exception.
\<close>

datatype error =
    ValueError
  | KeyError
  | TypeError
  | StatisticsError
  | IndexError
  | AttributeError
  | FileNotFoundError
  | ZeroDivisionError
  | RoutingError

definition and_then :: "error + 'a \<Rightarrow> ('a \<Rightarrow> error + 'b) \<Rightarrow> error + 'b" where
  \<comment> \<open>sequencing: an exception of the first computation skips the second\<close>
  "and_then r f = (case r of Inl e \<Rightarrow> Inl e | Inr v \<Rightarrow> f v)"

fun map_err :: "('a \<Rightarrow> error + 'b) \<Rightarrow> 'a list \<Rightarrow> error + 'b list" where
  \<comment> \<open>the comprehension \<open>[f(x) for x in xs]\<close> where \<open>f\<close> may raise\<close>
  "map_err f [] = Inr []"
| "map_err f (x # xs) =
     and_then (f x) (\<lambda>y. and_then (map_err f xs) (\<lambda>ys. Inr (y # ys)))"

fun filter_err :: "('a \<Rightarrow> error + bool) \<Rightarrow> 'a list \<Rightarrow> error + 'a list" where
  \<comment> \<open>the comprehension \<open>[x for x in xs if c(x)]\<close> where \<open>c\<close> may raise\<close>
  "filter_err c [] = Inr []"
| "filter_err c (x # xs) =
     and_then (c x) (\<lambda>b. and_then (filter_err c xs) (\<lambda>ys. Inr (if b then x # ys else ys)))"

definition index :: "'a list \<Rightarrow> nat \<Rightarrow> error + 'a" where
  \<comment> \<open>\<open>xs[i]\<close> for \<open>0 \<le> i\<close>\<close>
  "index xs i = (if i < length xs then Inr (xs ! i) else Inl IndexError)"

definition py_div :: "real \<Rightarrow> real \<Rightarrow> error + real" where
  "py_div a b = (if b = 0 then Inl ZeroDivisionError else Inr (a / b))"

section \<open>\<open>batch\<close>: slicing a sequence into chunks\<close>

text \<open>
  \<^verbatim>\<open>
  def batch(iterable, n=1):
      li = len(iterable)
      for ndx in range(0, li, n):
          yield iterable[ndx:min(ndx + n, li)]
  \<close>
  \<open>range_step ndx li n\<close> is the rest of \<open>range(0, li, n)\<close> from \<open>ndx\<close> on, for a
  positive step. Python's \<open>range\<close> raises \<open>ValueError\<close> for the step 0 and is empty
  for a negative step when \<open>0 \<le> li\<close>.
\<close>

function range_step :: "nat \<Rightarrow> nat \<Rightarrow> nat \<Rightarrow> nat list" where
  "range_step ndx li n =
     (if n = 0 \<or> li \<le> ndx then [] else ndx # range_step (ndx + n) li n)"
  by pat_completeness auto
termination
  by (relation "measure (\<lambda>(ndx, li, n). li - ndx)") auto

declare range_step.simps [simp del]

definition slice :: "'a list \<Rightarrow> nat \<Rightarrow> nat \<Rightarrow> 'a list" where
  \<comment> \<open>\<open>xs[a:b]\<close> for \<open>0 \<le> a\<close>, \<open>0 \<le> b\<close>\<close>
  "slice xs a b = take (b - a) (drop a xs)"

text \<open>
  \<open>batch\<close> needs of its argument only \<open>len\<close> and slicing, and the program applies it to a
  table. \<open>batch_with\<close> is the generator for any sequence type, given the slicing operation and
  the length; \<open>batch\<close> is the instance for lists.
\<close>

definition batch_with :: "(nat \<Rightarrow> nat \<Rightarrow> 'b) \<Rightarrow> nat \<Rightarrow> int \<Rightarrow> error + 'b list" where
  "batch_with getslice li n =
     (if n = 0 then Inl ValueError
      else if n < 0 then Inr []
      else Inr (map (\<lambda>ndx. getslice ndx (min (ndx + nat n) li)) (range_step 0 li (nat n))))"

definition batch :: "'a list \<Rightarrow> int \<Rightarrow> error + 'a list list" where
  "batch iterable n = batch_with (slice iterable) (length iterable) n"

section \<open>\<open>check_isochrones\<close>: the outlier filter\<close>

text \<open>
  A boundary point is the Python list \<open>[lat, lng]\<close>; a boundary-point set is a list of them.
  Coordinates are real numbers: the rounding of floating-point arithmetic is not modelled.

  \<open>statistics.mean\<close> raises \<open>StatisticsError\<close> on no data, \<open>statistics.stdev\<close> (the sample
  standard deviation, denominator \<open>n - 1\<close>) on fewer than two data points.
\<close>

type_synonym point = "real \<times> real"

definition st_mean :: "real list \<Rightarrow> error + real" where
  "st_mean data =
     (if length data < 1 then Inl StatisticsError
      else Inr (sum_list data / real (length data)))"

definition st_stdev :: "real list \<Rightarrow> error + real" where
  "st_stdev data =
     (if length data < 2 then Inl StatisticsError
      else let m = sum_list data / real (length data) in
        Inr (sqrt (sum_list (map (\<lambda>x. (x - m) ^ 2) data) / real (length data - 1))))"

definition zip_star :: "point list \<Rightarrow> real list list" where
  \<comment> \<open>\<open>zip(*pts)\<close>: the list of latitudes and the list of longitudes; nothing for no points\<close>
  "zip_star pts = (if pts = [] then [] else [map fst pts, map snd pts])"

text \<open>
  \<^verbatim>\<open>
  abs(mean[0] - x[0]) / sd[0] < std_devs and abs(mean[1] - x[1]) / sd[1] < std_devs
  \<close>
  The second comparison is evaluated only when the first one holds.
\<close>

definition keep_point :: "real list \<Rightarrow> real list \<Rightarrow> real \<Rightarrow> point \<Rightarrow> error + bool" where
  "keep_point mean sd std_devs x =
     and_then (index mean 0) (\<lambda>m0.
     and_then (index sd 0) (\<lambda>s0.
     and_then (py_div \<bar>m0 - fst x\<bar> s0) (\<lambda>q0.
     if q0 < std_devs then
       and_then (index mean 1) (\<lambda>m1.
       and_then (index sd 1) (\<lambda>s1.
       and_then (py_div \<bar>m1 - snd x\<bar> s1) (\<lambda>q1.
       Inr (q1 < std_devs))))
     else Inr False)))"

text \<open>
  \<^verbatim>\<open>
  def check_isochrones(points, std_devs=2):
      corrected = []
      for iso_num in range(0, len(points)):
          mean = [st.mean(x) for x in zip(*points[iso_num])]
          sd = [st.stdev(x) for x in zip(*points[iso_num])]
          fixed_isos = [x for x in points[iso_num] if abs(mean[0] - x[0]) / sd[0]
                        < std_devs and abs(mean[1] - x[1]) / sd[1] < std_devs]
          corrected.append(fixed_isos)
      return corrected
  \<close>
  \<open>check_loop\<close> is the loop over the remaining sets (\<open>pts\<close> is \<open>points[iso_num]\<close>) with the
  list \<open>corrected\<close> built so far.
\<close>

fun check_loop :: "point list list \<Rightarrow> real \<Rightarrow> point list list \<Rightarrow> error + point list list" where
  "check_loop [] std_devs corrected = Inr corrected"
| "check_loop (pts # rest) std_devs corrected =
     and_then (map_err st_mean (zip_star pts)) (\<lambda>mean.
     and_then (map_err st_stdev (zip_star pts)) (\<lambda>sd.
     and_then (filter_err (keep_point mean sd std_devs) pts) (\<lambda>fixed_isos.
     check_loop rest std_devs (corrected @ [fixed_isos]))))"

definition check_isochrones :: "point list list \<Rightarrow> real \<Rightarrow> error + point list list" where
  "check_isochrones points std_devs = check_loop points std_devs []"

text \<open>
  The outlier filter in the words of its contract: the mean and the sample standard deviation of
  one coordinate of a set, and a point being within \<open>t\<close> standard deviations of the mean in both
  coordinates.
\<close>

definition mean_of :: "real list \<Rightarrow> real" where
  "mean_of xs = sum_list xs / real (length xs)"

definition std_dev_of :: "real list \<Rightarrow> real" where
  "std_dev_of xs = sqrt (sum_list (map (\<lambda>x. (x - mean_of xs) ^ 2) xs) / real (length xs - 1))"

definition within_threshold :: "real \<Rightarrow> point list \<Rightarrow> point \<Rightarrow> bool" where
  "within_threshold t S p \<longleftrightarrow>
     \<bar>fst p - mean_of (map fst S)\<bar> < t * std_dev_of (map fst S) \<and>
     \<bar>snd p - mean_of (map snd S)\<bar> < t * std_dev_of (map snd S)"

section \<open>Values held in tables\<close>

text \<open>
  A table cell, and every other Python value that the program passes around: an integer, a
  string, the missing value \<open>NaN\<close>, a geometry of the input table (known here by its planar
  centroid \<open>(x, y)\<close> only), a list of floats such as an origin \<open>[lat, lng]\<close>, a polygon, and
  the text that the CSV writer produced for a list or a geometry, once it is read back.
\<close>

datatype polygon = Polygon "(real \<times> real) list"

datatype cell =
    CInt int
  | CStr string
  | CNaN
  | CGeom real real
  | CCoords "real list"
  | CPoly polygon
  | CText cell

text \<open>The argument \<open>duration\<close>: an \<open>int\<close> or a \<open>list\<close> of them.\<close>

datatype duration = DInt int | DList "int list"

section \<open>\<open>iterate_isochrones\<close>: polygons for a list of origins\<close>

text \<open>
  \<open>shapely.geometry.Polygon(shell)\<close> is represented by the coordinate sequence it is given (the
  ring is closed by the library). It is empty for no coordinates and raises \<open>ValueError\<close> for
  one or two coordinate tuples, which cannot form a ring.
\<close>

definition geometry_Polygon :: "(real \<times> real) list \<Rightarrow> error + polygon" where
  "geometry_Polygon shell =
     (if length shell = 1 \<or> length shell = 2 then Inl ValueError else Inr (Polygon shell))"

text \<open>
  \<^verbatim>\<open>
  def iterate_isochrones(coords, key, duration, swap_xy):
      iso_points = [isocronut.get_isochrone(
          origin=x, key=key, duration=duration, tolerance=2) for x in coords]
      iso_points = check_isochrones(iso_points)
      if swap_xy:
          iso_polys = [geometry.Polygon([[p[1], p[0]] for p in x])
                       for x in iso_points]
      else:
          iso_polys = [geometry.Polygon([[p[0], p[1]] for p in x])
                       for x in iso_points]
      return iso_polys
  \<close>
  The routing collaborator \<open>isocronut.get_isochrone\<close> is a parameter: given the origin, the key,
  the duration and the tolerance, it returns the boundary points or raises.
\<close>

type_synonym routing = "cell \<Rightarrow> string \<Rightarrow> duration \<Rightarrow> int \<Rightarrow> error + point list"

definition iterate_isochrones ::
  "routing \<Rightarrow> cell list \<Rightarrow> string \<Rightarrow> duration \<Rightarrow> bool \<Rightarrow> error + polygon list" where
  "iterate_isochrones get_isochrone coords key duration swap_xy =
     and_then (map_err (\<lambda>x. get_isochrone x key duration 2) coords) (\<lambda>iso_points.
     and_then (check_isochrones iso_points 2) (\<lambda>iso_points.
     if swap_xy then
       map_err (\<lambda>x. geometry_Polygon (map (\<lambda>p. (snd p, fst p)) x)) iso_points
     else
       map_err (\<lambda>x. geometry_Polygon (map (\<lambda>p. (fst p, snd p)) x)) iso_points))"

definition swap_polygon :: "polygon \<Rightarrow> polygon" where
  \<comment> \<open>the same polygon with every coordinate pair in the reverse order\<close>
  "swap_polygon g = (case g of Polygon shell \<Rightarrow> Polygon (map (\<lambda>p. (snd p, fst p)) shell))"

section \<open>Tables\<close>

text \<open>
  A pandas \<open>DataFrame\<close>: the row labels (the index) and the columns in their order, each column
  with one cell per row. A column label is a string or an integer (the program names columns
  after durations). \<open>nrows\<close> is \<open>len(df)\<close>.
\<close>

datatype colname = SCol string | ICol int

record frame =
  row_labels :: "int list"
  cols :: "(colname \<times> cell list) list"

definition empty_frame :: frame where
  \<comment> \<open>\<open>pd.DataFrame()\<close>\<close>
  "empty_frame = \<lparr>row_labels = [], cols = []\<rparr>"

definition nrows :: "frame \<Rightarrow> nat" where
  "nrows f = length (row_labels f)"

definition range_index :: "nat \<Rightarrow> int list" where
  \<comment> \<open>the default index \<open>0, 1, ..., n - 1\<close>\<close>
  "range_index n = map int [0..<n]"

definition get_column :: "frame \<Rightarrow> colname \<Rightarrow> error + cell list" where
  \<comment> \<open>\<open>df[c]\<close> for one label\<close>
  "get_column f c = (case map_of (cols f) c of None \<Rightarrow> Inl KeyError | Some v \<Rightarrow> Inr v)"

definition put_column :: "frame \<Rightarrow> colname \<Rightarrow> cell list \<Rightarrow> frame" where
  \<comment> \<open>an existing column is replaced where it stands, a new one is added at the end\<close>
  "put_column f c v =
     (if map_of (cols f) c = None then f\<lparr>cols := cols f @ [(c, v)]\<rparr>
      else f\<lparr>cols := map (\<lambda>kv. if fst kv = c then (c, v) else kv) (cols f)\<rparr>)"

definition adopt_index :: "frame \<Rightarrow> int list \<Rightarrow> frame" where
  \<comment> \<open>a table without rows takes the index of the first values it is given; the columns it
      already has are filled with \<open>NaN\<close>\<close>
  "adopt_index f labels =
     \<lparr>row_labels = labels,
      cols = map (\<lambda>kv. (fst kv, replicate (length labels) CNaN)) (cols f)\<rparr>"

definition set_scalar :: "frame \<Rightarrow> colname \<Rightarrow> cell \<Rightarrow> frame" where
  \<comment> \<open>\<open>df[c] = v\<close> for a scalar \<open>v\<close>: one copy per row\<close>
  "set_scalar f c v = put_column f c (replicate (nrows f) v)"

definition set_list :: "frame \<Rightarrow> colname \<Rightarrow> cell list \<Rightarrow> error + frame" where
  \<comment> \<open>\<open>df[c] = v\<close> for a list or an array \<open>v\<close>: positional, the lengths must agree\<close>
  "set_list f c v =
     (if row_labels f = [] \<and> v \<noteq> [] then
        Inr (put_column (adopt_index f (range_index (length v))) c v)
      else if length v \<noteq> nrows f then Inl ValueError
      else Inr (put_column f c v))"

definition set_series :: "frame \<Rightarrow> colname \<Rightarrow> int list \<Rightarrow> cell list \<Rightarrow> error + frame" where
  \<comment> \<open>\<open>df[c] = s\<close> for a \<open>Series\<close> with the given labels and values: the values are used as
      they are when the labels are the table's, and looked up by label otherwise\<close>
  "set_series f c labels v =
     (if row_labels f = [] \<and> v \<noteq> [] then Inr (put_column (adopt_index f labels) c v)
      else if labels = row_labels f then Inr (put_column f c v)
      else if \<not> distinct labels then Inl ValueError
      else Inr (put_column f c
             (map (\<lambda>l. case map_of (zip labels v) l of None \<Rightarrow> CNaN | Some x \<Rightarrow> x)
                  (row_labels f))))"

definition set_index :: "frame \<Rightarrow> int list \<Rightarrow> error + frame" where
  \<comment> \<open>\<open>df.set_index(idx)\<close> for an \<open>Index\<close> object\<close>
  "set_index f labels =
     (if length labels \<noteq> nrows f then Inl ValueError else Inr (f\<lparr>row_labels := labels\<rparr>))"

definition slice_frame :: "frame \<Rightarrow> nat \<Rightarrow> nat \<Rightarrow> frame" where
  \<comment> \<open>\<open>df[a:b]\<close>: the rows at the positions \<open>a, ..., b - 1\<close>\<close>
  "slice_frame f a b =
     \<lparr>row_labels = slice (row_labels f) a b,
      cols = map (\<lambda>kv. (fst kv, slice (snd kv) a b)) (cols f)\<rparr>"

definition select_mask :: "bool list \<Rightarrow> 'a list \<Rightarrow> 'a list" where
  "select_mask bs xs = map snd (filter fst (zip bs xs))"

definition mask_frame :: "frame \<Rightarrow> bool list \<Rightarrow> frame" where
  \<comment> \<open>\<open>df[bs]\<close> for a boolean mask \<open>bs\<close>: the rows where the mask holds\<close>
  "mask_frame f bs =
     \<lparr>row_labels = select_mask bs (row_labels f),
      cols = map (\<lambda>kv. (fst kv, select_mask bs (snd kv))) (cols f)\<rparr>"

text \<open>
  The argument \<open>keep_cols\<close>: \<open>None\<close>, one column name, or a list of column names.
  \<open>copy_keep df gdf keep_cols\<close> is the statement \<open>df[keep_cols] = gdf[keep_cols]\<close>: the right-hand
  side raises \<open>KeyError\<close> for a name that \<open>gdf\<close> does not have (\<open>None\<close> is never one); for a list
  of names the columns are copied one after the other.
\<close>

datatype keep = KNone | KName string | KList "string list"

fun copy_columns :: "frame \<Rightarrow> frame \<Rightarrow> string list \<Rightarrow> error + frame" where
  "copy_columns df sub [] = Inr df"
| "copy_columns df sub (c # cs) =
     and_then (get_column sub (SCol c)) (\<lambda>v.
     and_then (set_series df (SCol c) (row_labels sub) v) (\<lambda>df'.
     copy_columns df' sub cs))"

definition copy_keep :: "frame \<Rightarrow> frame \<Rightarrow> keep \<Rightarrow> error + frame" where
  "copy_keep df gdf keep_cols =
     (case keep_cols of
        KNone \<Rightarrow> Inl KeyError
      | KName c \<Rightarrow>
          and_then (get_column gdf (SCol c)) (\<lambda>v. set_series df (SCol c) (row_labels gdf) v)
      | KList cs \<Rightarrow>
          and_then (map_err (\<lambda>c. get_column gdf (SCol c)) cs) (\<lambda>_.
          copy_columns df gdf cs))"

section \<open>\<open>get_centroids\<close> and \<open>shp_to_isochrones\<close>\<close>

text \<open>
  \<^verbatim>\<open>
  def get_centroids(gdf):
      x = gdf['geometry'].centroid.x
      y = gdf['geometry'].centroid.y
      coords = [list(i) for i in zip(y, x)]
      return coords
  \<close>
  Only a geometry has a centroid; any other cell raises \<open>AttributeError\<close>.
\<close>

definition centroid_x :: "cell \<Rightarrow> error + real" where
  "centroid_x c = (case c of CGeom x y \<Rightarrow> Inr x | _ \<Rightarrow> Inl AttributeError)"

definition centroid_y :: "cell \<Rightarrow> error + real" where
  "centroid_y c = (case c of CGeom x y \<Rightarrow> Inr y | _ \<Rightarrow> Inl AttributeError)"

definition get_centroids :: "frame \<Rightarrow> error + cell list" where
  "get_centroids gdf =
     and_then (and_then (get_column gdf (SCol ''geometry'')) (map_err centroid_x)) (\<lambda>x.
     and_then (and_then (get_column gdf (SCol ''geometry'')) (map_err centroid_y)) (\<lambda>y.
     Inr (map (\<lambda>i. CCoords [fst i, snd i]) (zip y x))))"

text \<open>
  \<open>pd.melt(df, id_vars, value_vars, var_name='duration', value_name='geometry')\<close>: one row per
  row of \<open>df\<close> and value column. An identifier entry is a column label or, as the program can
  build it, a nested list of names, which is not a label and makes \<open>melt\<close> raise.
\<close>

datatype id_var = Label colname | Nested "string list"

definition label_of :: "id_var \<Rightarrow> error + colname" where
  "label_of v = (case v of Label c \<Rightarrow> Inr c | Nested cs \<Rightarrow> Inl TypeError)"

definition label_cell :: "colname \<Rightarrow> cell" where
  "label_cell c = (case c of SCol s \<Rightarrow> CStr s | ICol n \<Rightarrow> CInt n)"

fun put_columns :: "frame \<Rightarrow> (colname \<times> cell list) list \<Rightarrow> frame" where
  "put_columns f [] = f"
| "put_columns f (kv # kvs) = put_columns (put_column f (fst kv) (snd kv)) kvs"

definition melt :: "frame \<Rightarrow> id_var list \<Rightarrow> colname list \<Rightarrow> error + frame" where
  "melt df id_vars value_vars =
     and_then (map_err label_of id_vars) (\<lambda>ids.
     and_then (map_err (get_column df) ids) (\<lambda>id_data.
     and_then (map_err (get_column df) value_vars) (\<lambda>value_data.
     let N = nrows df; K = length value_vars in
     Inr (put_columns \<lparr>row_labels = range_index (N * K), cols = []\<rparr>
            (zip ids (map (\<lambda>v. concat (replicate K v)) id_data) @
             [(SCol ''duration'', concat (map (\<lambda>c. replicate N (label_cell c)) value_vars)),
              (SCol ''geometry'', concat value_data)])))))"

text \<open>\<open>x[::-1]\<close>: defined for a list and for a string.\<close>

definition reversed :: "cell \<Rightarrow> error + cell" where
  "reversed x =
     (case x of CCoords xs \<Rightarrow> Inr (CCoords (rev xs)) | CStr s \<Rightarrow> Inr (CStr (rev s))
      | _ \<Rightarrow> Inl TypeError)"

text \<open>
  \<^verbatim>\<open>
  def shp_to_isochrones(gdf, key, duration, keep_cols=None, swap_xy=True):
      df = pd.DataFrame()
      df['coords'] = get_centroids(gdf)
      if type(duration) is int or (type(duration) is list and len(duration) == 1):
          df['duration'] = duration
          if keep_cols is not None:
              df = df.set_index(gdf.index)
              df[keep_cols] = gdf[keep_cols]
          df['geometry'] = iterate_isochrones(df['coords'], key, duration, swap_xy)
          return df
      else:
          for length in duration:
              iso = pd.Series(iterate_isochrones(df['coords'], key, length, swap_xy))
              df[length] = iso.values
              df = df.set_index(gdf.index)
              df[keep_cols] = gdf[keep_cols]
      if swap_xy:
          df['coords'] = [x[::-1] for x in df['coords']]
      id_vars = ['coords']
      if keep_cols is not None:
          if keep_cols is not isinstance(keep_cols, list):
              id_vars += [keep_cols]
          else:
              id_vars += keep_cols
      cols = [col for col in df.columns if isinstance(col, int)]
      df = pd.melt(df, id_vars=id_vars, value_vars=cols,
                   var_name='duration', value_name='geometry')
      return df
  \<close>
  \<open>duration_loop\<close> is the loop of the second branch over the remaining durations (the loop
  variable \<open>length\<close> is \<open>d\<close> here). The test \<open>keep_cols is not isinstance(keep_cols, list)\<close>
  compares \<open>keep_cols\<close> with a truth value and holds for every \<open>keep_cols\<close> other than \<open>None\<close>,
  so that \<open>keep_cols\<close> is always added as one entry.
\<close>

definition single_duration :: "duration \<Rightarrow> bool" where
  "single_duration duration = (case duration of DInt d \<Rightarrow> True | DList ds \<Rightarrow> length ds = 1)"

definition set_duration :: "frame \<Rightarrow> duration \<Rightarrow> error + frame" where
  \<comment> \<open>\<open>df['duration'] = duration\<close>\<close>
  "set_duration df duration =
     (case duration of
        DInt d \<Rightarrow> Inr (set_scalar df (SCol ''duration'') (CInt d))
      | DList ds \<Rightarrow> set_list df (SCol ''duration'') (map CInt ds))"

fun duration_loop ::
  "routing \<Rightarrow> frame \<Rightarrow> string \<Rightarrow> keep \<Rightarrow> bool \<Rightarrow> int list \<Rightarrow> frame \<Rightarrow> error + frame" where
  "duration_loop get_isochrone gdf key keep_cols swap_xy [] df = Inr df"
| "duration_loop get_isochrone gdf key keep_cols swap_xy (d # rest) df =
     and_then (get_column df (SCol ''coords'')) (\<lambda>coords.
     and_then (iterate_isochrones get_isochrone coords key (DInt d) swap_xy) (\<lambda>iso.
     and_then (set_list df (ICol d) (map CPoly iso)) (\<lambda>df.
     and_then (set_index df (row_labels gdf)) (\<lambda>df.
     and_then (copy_keep df gdf keep_cols) (\<lambda>df.
     duration_loop get_isochrone gdf key keep_cols swap_xy rest df)))))"

definition int_columns :: "frame \<Rightarrow> colname list" where
  \<comment> \<open>\<open>[col for col in df.columns if isinstance(col, int)]\<close>\<close>
  "int_columns df = filter (\<lambda>c. case c of ICol n \<Rightarrow> True | SCol s \<Rightarrow> False) (map fst (cols df))"

definition shp_to_isochrones ::
  "routing \<Rightarrow> frame \<Rightarrow> string \<Rightarrow> duration \<Rightarrow> keep \<Rightarrow> bool \<Rightarrow> error + frame" where
  "shp_to_isochrones get_isochrone gdf key duration keep_cols swap_xy =
     and_then (get_centroids gdf) (\<lambda>centroids.
     and_then (set_list empty_frame (SCol ''coords'') centroids) (\<lambda>df.
     if single_duration duration then
       and_then (set_duration df duration) (\<lambda>df.
       and_then (if keep_cols \<noteq> KNone
                 then and_then (set_index df (row_labels gdf)) (\<lambda>df. copy_keep df gdf keep_cols)
                 else Inr df) (\<lambda>df.
       and_then (get_column df (SCol ''coords'')) (\<lambda>coords.
       and_then (iterate_isochrones get_isochrone coords key duration swap_xy) (\<lambda>iso.
       set_list df (SCol ''geometry'') (map CPoly iso)))))
     else
       and_then (case duration of
                   DList ds \<Rightarrow> duration_loop get_isochrone gdf key keep_cols swap_xy ds df
                 | DInt d \<Rightarrow> Inl TypeError) (\<lambda>df.
       and_then (if swap_xy
                 then and_then (get_column df (SCol ''coords'')) (\<lambda>coords.
                      and_then (map_err reversed coords) (\<lambda>swapped.
                      set_list df (SCol ''coords'') swapped))
                 else Inr df) (\<lambda>df.
       let id_vars = [Label (SCol ''coords'')] @
             (case keep_cols of KNone \<Rightarrow> [] | KName c \<Rightarrow> [Label (SCol c)]
              | KList cs \<Rightarrow> [Nested cs]);
           value_cols = int_columns df
       in melt df id_vars value_cols))))"

section \<open>CSV files\<close>

text \<open>
  A CSV file is text: the name of each column with the fields below it. \<open>to_csv(index=False)\<close>
  writes an integer in decimal, a string as it is, nothing for \<open>NaN\<close>, and for a list or a
  geometry the text that Python's \<open>str\<close> gives, which is the parameter \<open>str_of\<close>. Quoting is not
  modelled.

  \<open>read_csv\<close> gives a table with the default index. It infers the type of each column: an
  empty field is \<open>NaN\<close>; a column whose other fields are all integer literals holds integers,
  any other column holds its fields as strings. (pandas stores integers beside \<open>NaN\<close> as floats
  of the same value, which compare equal to the integers; they are integers here. Literals are
  decimal digits with an optional sign: surrounding blanks, floats and the words that pandas
  reads as missing values are not modelled.) A file without any column makes \<open>read_csv\<close> raise
  \<open>EmptyDataError\<close>, a \<open>ValueError\<close>.
\<close>

type_synonym csv = "(string \<times> string list) list"

fun str_nat :: "nat \<Rightarrow> string" where
  "str_nat n =
     (if n < 10 then [''0123456789'' ! n]
      else str_nat (n div 10) @ [''0123456789'' ! (n mod 10)])"

declare str_nat.simps [simp del]

definition str_int :: "int \<Rightarrow> string" where
  "str_int i = (if i < 0 then CHR ''-'' # str_nat (nat (- i)) else str_nat (nat i))"

definition digit_val :: "char \<Rightarrow> nat option" where
  "digit_val c = map_of (zip ''0123456789'' [0..<10]) c"

fun digits_val :: "string \<Rightarrow> nat \<Rightarrow> nat option" where
  "digits_val [] acc = Some acc"
| "digits_val (c # cs) acc =
     (case digit_val c of None \<Rightarrow> None | Some d \<Rightarrow> digits_val cs (10 * acc + d))"

definition int_literal :: "string \<Rightarrow> int option" where
  "int_literal s =
     (case s of
        [] \<Rightarrow> None
      | c # cs \<Rightarrow>
          if c = CHR ''-'' then
            (if cs = [] then None else map_option (\<lambda>n. - int n) (digits_val cs 0))
          else if c = CHR ''+'' then
            (if cs = [] then None else map_option int (digits_val cs 0))
          else map_option int (digits_val s 0))"

definition name_text :: "colname \<Rightarrow> string" where
  "name_text c = (case c of SCol s \<Rightarrow> s | ICol n \<Rightarrow> str_int n)"

definition field_of :: "(cell \<Rightarrow> string) \<Rightarrow> cell \<Rightarrow> string" where
  "field_of str_of c =
     (case c of CInt n \<Rightarrow> str_int n | CStr s \<Rightarrow> s | CNaN \<Rightarrow> [] | _ \<Rightarrow> str_of c)"

definition to_csv :: "(cell \<Rightarrow> string) \<Rightarrow> frame \<Rightarrow> csv" where
  "to_csv str_of f = map (\<lambda>kv. (name_text (fst kv), map (field_of str_of) (snd kv))) (cols f)"

definition read_column :: "string list \<Rightarrow> cell list" where
  "read_column texts =
     (if list_all (\<lambda>t. t = [] \<or> int_literal t \<noteq> None) texts then
        map (\<lambda>t. case int_literal t of None \<Rightarrow> CNaN | Some n \<Rightarrow> CInt n) texts
      else map (\<lambda>t. if t = [] then CNaN else CStr t) texts)"

definition read_csv :: "csv \<Rightarrow> error + frame" where
  "read_csv file =
     (case file of
        [] \<Rightarrow> Inl ValueError
      | first # _ \<Rightarrow>
          Inr \<lparr>row_labels = range_index (length (snd first)),
               cols = map (\<lambda>kv. (SCol (fst kv), read_column (snd kv))) file\<rparr>)"

text \<open>
  \<open>a.append(b)\<close>: the rows of \<open>a\<close>, then those of \<open>b\<close>, over the columns of both; a column that one
  of the tables lacks is \<open>NaN\<close> in its rows. (The order of the columns of the result depends on
  the version of pandas; here the columns of \<open>a\<close> come first.)
\<close>

definition column_or_nan :: "frame \<Rightarrow> colname \<Rightarrow> cell list" where
  "column_or_nan f c =
     (case map_of (cols f) c of None \<Rightarrow> replicate (nrows f) CNaN | Some v \<Rightarrow> v)"

definition append_frames :: "frame \<Rightarrow> frame \<Rightarrow> frame" where
  "append_frames a b =
     (let names = map fst (cols a) @
                  filter (\<lambda>c. map_of (cols a) c = None) (map fst (cols b))
      in \<lparr>row_labels = row_labels a @ row_labels b,
          cols = map (\<lambda>c. (c, column_or_nan a c @ column_or_nan b c)) names\<rparr>)"

text \<open>
  \<open>s.astype(int)\<close>: an integer stays, a string is read by \<open>int\<close>, which raises \<open>ValueError\<close> for
  anything but an integer literal; \<open>NaN\<close> cannot be converted.
\<close>

definition to_int :: "cell \<Rightarrow> error + cell" where
  "to_int c =
     (case c of
        CInt n \<Rightarrow> Inr (CInt n)
      | CStr s \<Rightarrow> (case int_literal s of None \<Rightarrow> Inl ValueError | Some n \<Rightarrow> Inr (CInt n))
      | CNaN \<Rightarrow> Inl ValueError
      | _ \<Rightarrow> Inl TypeError)"

definition astype_int :: "cell list \<Rightarrow> error + cell list" where
  "astype_int s = map_err to_int s"

section \<open>\<open>isochrone_batch\<close>: the resumable batch run\<close>

text \<open>
  \<^verbatim>\<open>
  def isochrone_batch(gdf, key, out_filename='isochrones.csv',
                      matching_var='GEOID', duration=15,
                      keep_cols=None, batch_size=5):
      if not os.path.exists(out_filename):
          out_df = pd.DataFrame()
          out_df[matching_var] = ""
          out_df.to_csv(out_filename, index=False)
      else:
          out_df = pd.read_csv(out_filename)
          gdf[matching_var] = gdf[matching_var].astype(int)
      unfinished_idx = [item for item in gdf[matching_var]
                        if item not in set(out_df[matching_var])]
      gdf_unfinished = gdf[gdf[matching_var].isin(unfinished_idx)]
      for batch_items in batch(gdf_unfinished, batch_size):
          batch_df = shp_to_isochrones(batch_items, key=key,
                                       duration=duration, keep_cols=keep_cols)
          print(batch_df)
          pd.read_csv(out_filename).append(batch_df).to_csv(out_filename, index=False)
  \<close>
  The function works on two things outside itself: the table object \<open>gdf\<close> of its caller, which
  the statement \<open>gdf[matching_var] = ...\<close> changes in place, and the files. Both are the state
  \<open>world\<close>; the function returns the exception it raised, if any, and the state it left.
  What \<open>print\<close> writes is not part of the state.
\<close>

record world =
  caller_gdf :: frame
  files :: "string \<Rightarrow> csv option"

text \<open>
  \<open>item not in set(out_df[matching_var])\<close> is evaluated for each item, so a table without rows
  never reads the column of \<open>out_df\<close>. \<open>NaN\<close> is equal to nothing, itself included, whereas
  \<open>isin\<close> counts a \<open>NaN\<close> as found among values that hold one.
\<close>

definition unfinished_idx :: "frame \<Rightarrow> frame \<Rightarrow> string \<Rightarrow> error + cell list" where
  "unfinished_idx gdf out_df matching_var =
     and_then (get_column gdf (SCol matching_var)) (\<lambda>items.
     filter_err (\<lambda>item.
        and_then (get_column out_df (SCol matching_var)) (\<lambda>done_ids.
        Inr (item = CNaN \<or> item \<notin> set done_ids))) items)"

definition isin :: "cell list \<Rightarrow> cell list \<Rightarrow> bool list" where
  "isin s vals = map (\<lambda>v. v \<in> set vals) s"

text \<open>
  The loop over the chunks. Each turn computes the table of the chunk (with the default
  \<open>swap_xy=True\<close>), then reads the whole output file, appends the table and writes the file again.
\<close>

fun batch_loop ::
  "routing \<Rightarrow> (cell \<Rightarrow> string) \<Rightarrow> string \<Rightarrow> string \<Rightarrow> duration \<Rightarrow> keep \<Rightarrow> frame list \<Rightarrow>
   (string \<Rightarrow> csv option) \<Rightarrow> error option \<times> (string \<Rightarrow> csv option)" where
  "batch_loop get_isochrone str_of key out_filename duration keep_cols [] fs = (None, fs)"
| "batch_loop get_isochrone str_of key out_filename duration keep_cols (batch_items # rest) fs =
     (case shp_to_isochrones get_isochrone batch_items key duration keep_cols True of
        Inl e \<Rightarrow> (Some e, fs)
      | Inr batch_df \<Rightarrow>
          (case fs out_filename of
             None \<Rightarrow> (Some FileNotFoundError, fs)
           | Some file \<Rightarrow>
               (case read_csv file of
                  Inl e \<Rightarrow> (Some e, fs)
                | Inr old \<Rightarrow>
                    batch_loop get_isochrone str_of key out_filename duration keep_cols rest
                      (fs(out_filename \<mapsto> to_csv str_of (append_frames old batch_df))))))"

definition open_output :: "(cell \<Rightarrow> string) \<Rightarrow> string \<Rightarrow> string \<Rightarrow> world \<Rightarrow> error + frame \<times> world" where
  \<comment> \<open>the first statement: create the file, or read it and coerce the caller's column\<close>
  "open_output str_of out_filename matching_var w =
     (case files w out_filename of
        None \<Rightarrow>
          (let out_df = set_scalar empty_frame (SCol matching_var) (CStr [])
           in Inr (out_df, w\<lparr>files := (files w)(out_filename \<mapsto> to_csv str_of out_df)\<rparr>))
      | Some file \<Rightarrow>
          and_then (read_csv file) (\<lambda>out_df.
          and_then (and_then (get_column (caller_gdf w) (SCol matching_var)) astype_int) (\<lambda>ids.
          Inr (out_df, w\<lparr>caller_gdf := put_column (caller_gdf w) (SCol matching_var) ids\<rparr>))))"

definition isochrone_batch ::
  "routing \<Rightarrow> (cell \<Rightarrow> string) \<Rightarrow> string \<Rightarrow> string \<Rightarrow> string \<Rightarrow> duration \<Rightarrow> keep \<Rightarrow> int \<Rightarrow>
   world \<Rightarrow> error option \<times> world" where
  "isochrone_batch get_isochrone str_of key out_filename matching_var duration keep_cols
     batch_size w =
     (case open_output str_of out_filename matching_var w of
        Inl e \<Rightarrow> (Some e, w)
      | Inr (out_df, w1) \<Rightarrow>
          (let gdf = caller_gdf w1 in
           case and_then (unfinished_idx gdf out_df matching_var) (\<lambda>unfinished.
                and_then (get_column gdf (SCol matching_var)) (\<lambda>ids.
                Inr (mask_frame gdf (isin ids unfinished)))) of
             Inl e \<Rightarrow> (Some e, w1)
           | Inr gdf_unfinished \<Rightarrow>
               (case batch_with (slice_frame gdf_unfinished) (nrows gdf_unfinished) batch_size of
                  Inl e \<Rightarrow> (Some e, w1)
                | Inr chunks \<Rightarrow>
                    (let (raised, fs) =
                           batch_loop get_isochrone str_of key out_filename duration keep_cols
                             chunks (files w1)
                     in (raised, w1\<lparr>files := fs\<rparr>)))))"

section \<open>Inputs and files of the evaluated runs\<close>

text \<open>
  A table of two records with the identifiers 17 and 18, its two chunks of one record, a routing
  collaborator that answers every request with the same three boundary points (none of which
  the outlier filter removes) and one that fails for the second record. \<open>header_only\<close> is the
  output file as it is created; \<open>ledger\<close> is an output file with the four columns that a run with
  the default \<open>keep_cols\<close> writes, \<open>read_ledger\<close> the table read from it, and \<open>chunk_table\<close> the
  table computed for a chunk.
\<close>

definition two_rows :: frame where
  "two_rows = \<lparr>row_labels = [0, 1],
      cols = [(SCol ''GEOID'', [CInt 17, CInt 18]), (SCol ''geometry'', [CGeom 1 2, CGeom 3 4])]\<rparr>"

definition triangles :: routing where
  "triangles = (\<lambda>x k d tol. Inr [(0, 0), (1, 2), (2, 1)])"

definition header_only :: csv where
  "header_only = [(''GEOID'', [])]"

definition ledger :: "string list \<Rightarrow> string list \<Rightarrow> string list \<Rightarrow> string list \<Rightarrow> csv" where
  "ledger ids cs ds gs =
     [(''GEOID'', ids), (''coords'', cs), (''duration'', ds), (''geometry'', gs)]"

definition read_ledger :: "string list \<Rightarrow> string list \<Rightarrow> string list \<Rightarrow> string list \<Rightarrow> frame" where
  "read_ledger ids cs ds gs =
     \<lparr>row_labels = range_index (length ids),
      cols = [(SCol ''GEOID'', read_column ids), (SCol ''coords'', read_column cs),
              (SCol ''duration'', read_column ds), (SCol ''geometry'', read_column gs)]\<rparr>"

definition chunk_table :: "int list \<Rightarrow> cell list \<Rightarrow> cell list \<Rightarrow> cell list \<Rightarrow> frame" where
  "chunk_table l c d g =
     \<lparr>row_labels = l,
      cols = [(SCol ''coords'', c), (SCol ''duration'', d), (SCol ''geometry'', g)]\<rparr>"

definition fails_at_second :: routing where
  "fails_at_second = (\<lambda>x k d tol.
     if x = CCoords [4, 3] then Inl RoutingError else Inr [(0, 0), (1, 2), (2, 1)])"

definition row0 :: frame where
  "row0 = \<lparr>row_labels = [0],
      cols = [(SCol ''GEOID'', [CInt 17]), (SCol ''geometry'', [CGeom 1 2])]\<rparr>"

definition row1 :: frame where
  "row1 = \<lparr>row_labels = [1],
      cols = [(SCol ''GEOID'', [CInt 18]), (SCol ''geometry'', [CGeom 3 4])]\<rparr>"

definition table0 :: frame where
  "table0 = chunk_table [0] [CCoords [2, 1]] [CInt 15] [CPoly (Polygon [(0, 0), (2, 1), (1, 2)])]"

definition table1 :: frame where
  "table1 = chunk_table [0] [CCoords [4, 3]] [CInt 15] [CPoly (Polygon [(0, 0), (2, 1), (1, 2)])]"

definition one_text_id :: frame where
  "one_text_id = \<lparr>row_labels = [0],
      cols = [(SCol ''GEOID'', [CStr ''17'']), (SCol ''geometry'', [CGeom 1 2])]\<rparr>"

definition placeholder_text :: "cell \<Rightarrow> string" where
  "placeholder_text c = ''?''"

section \<open>Properties of \<open>batch\<close>\<close>

lemma range_step_lt: "i \<in> set (range_step ndx li n) \<Longrightarrow> i < li"
  by (induction ndx li n rule: range_step.induct)
     (subst (asm) range_step.simps, auto split: if_splits)

lemma concat_chunks_from:
  "0 < n \<Longrightarrow> ndx \<le> length xs \<Longrightarrow>
   concat (map (\<lambda>i. slice xs i (min (i + n) (length xs))) (range_step ndx (length xs) n))
     = drop ndx xs"
proof (induction ndx "length xs" n rule: range_step.induct)
  case (1 ndx n)
  show ?case
  proof (cases "length xs \<le> ndx")
    case True
    then show ?thesis by (subst range_step.simps) simp
  next
    case False
    have step: "take (min (ndx + n) (length xs) - ndx) (drop ndx xs) @ drop (ndx + n) xs
                  = drop ndx xs"
    proof (cases "ndx + n \<le> length xs")
      case True
      then have m: "min (ndx + n) (length xs) - ndx = n" by simp
      have "take n (drop ndx xs) @ drop n (drop ndx xs) = drop ndx xs"
        by (rule append_take_drop_id)
      then show ?thesis
        unfolding m by (simp add: add.commute)
    next
      case False
      then show ?thesis by simp
    qed
    show ?thesis
    proof (cases "ndx + n \<le> length xs")
      case True
      with False 1 step show ?thesis
        by (subst range_step.simps) (simp add: slice_def)
    next
      case over: False
      have "range_step (ndx + n) (length xs) n = []"
        using over by (subst range_step.simps) simp
      with False 1 step over show ?thesis
        by (subst range_step.simps) (simp add: slice_def)
    qed
  qed
qed

lemma chunk_sizes:
  "0 < n \<Longrightarrow> range_step ndx li n = is \<Longrightarrow> k < length is \<Longrightarrow>
   is ! k = ndx + k * n \<and> (Suc k < length is \<longrightarrow> is ! k + n < li)"
proof (induction ndx li n arbitrary: "is" k rule: range_step.induct)
  case (1 ndx li n)
  from "1.prems" have ne: "\<not> (n = 0 \<or> li \<le> ndx)"
    by (subst (asm) range_step.simps) (auto split: if_splits)
  then have is_eq: "is = ndx # range_step (ndx + n) li n"
    using "1.prems"(2) by (subst (asm) range_step.simps) simp
  show ?case
  proof (cases k)
    case 0
    have "Suc 0 < length is \<Longrightarrow> ndx + n < li"
    proof -
      assume "Suc 0 < length is"
      then have "range_step (ndx + n) li n \<noteq> []" using is_eq by auto
      then show "ndx + n < li"
        by (subst (asm) range_step.simps) (auto split: if_splits)
    qed
    with 0 is_eq show ?thesis by auto
  next
    case (Suc j)
    with "1.prems" is_eq have j: "j < length (range_step (ndx + n) li n)" by simp
    from "1.IH"[OF ne "1.prems"(1) refl j] Suc is_eq show ?thesis
      by (auto simp: algebra_simps)
  qed
qed

text \<open>
  Claim C8. For a batch size \<open>n \<ge> 1\<close>, \<open>batch\<close> returns chunks whose concatenation, in
  order, is the original sequence; no chunk is empty, no chunk is longer than \<open>n\<close>, and every
  chunk but the last has exactly \<open>n\<close> elements. Seven records with batch size 3 give three
  chunks of sizes 3, 3, 1.
\<close>

theorem batch_partition:
  assumes "1 \<le> n"
  shows "\<exists>cs. batch xs n = Inr cs \<and> concat cs = xs
            \<and> (\<forall>c \<in> set cs. c \<noteq> [] \<and> int (length c) \<le> n)
            \<and> (\<forall>k. Suc k < length cs \<longrightarrow> int (length (cs ! k)) = n)
            \<and> (length xs = 7 \<and> n = 3 \<longrightarrow> map length cs = [3, 3, 1])"
proof -
  define m where "m = nat n"
  define ixs where "ixs = range_step 0 (length xs) m"
  define cs where "cs = map (\<lambda>ndx. slice xs ndx (min (ndx + m) (length xs))) ixs"
  have m: "0 < m" "int m = n" using assms by (simp_all add: m_def)
  have b: "batch xs n = Inr cs"
    using assms by (simp add: batch_def batch_with_def cs_def ixs_def m_def)
  have c: "concat cs = xs"
    using concat_chunks_from[OF m(1), of 0 xs] by (simp add: cs_def ixs_def)
  have d: "\<forall>c \<in> set cs. c \<noteq> [] \<and> int (length c) \<le> n"
  proof
    fix c assume "c \<in> set cs"
    then obtain i where i: "i \<in> set ixs" "c = slice xs i (min (i + m) (length xs))"
      by (auto simp: cs_def)
    then have "i < length xs" using range_step_lt by (auto simp: ixs_def)
    with i m show "c \<noteq> [] \<and> int (length c) \<le> n" by (auto simp: slice_def)
  qed
  have e: "\<forall>k. Suc k < length cs \<longrightarrow> int (length (cs ! k)) = n"
  proof (intro allI impI)
    fix k assume k: "Suc k < length cs"
    then have k': "k < length ixs" "Suc k < length ixs" by (simp_all add: cs_def)
    from chunk_sizes[OF m(1) ixs_def[symmetric] k'(1)] k'(2)
    have "ixs ! k + m < length xs" by simp
    then show "int (length (cs ! k)) = n"
      using k'(1) m by (simp add: cs_def slice_def)
  qed
  have f: "length xs = 7 \<and> n = 3 \<longrightarrow> map length cs = [3, 3, 1]"
  proof
    assume a: "length xs = 7 \<and> n = 3"
    then have "m = 3" by (simp add: m_def)
    moreover have "range_step 0 7 3 = [0, 3, 6]"
      by (simp add: range_step.simps)
    ultimately show "map length cs = [3, 3, 1]"
      using a by (simp add: cs_def ixs_def slice_def)
  qed
  show ?thesis by (intro exI[of _ cs] conjI b c d e f)
qed

theorem batch_partition_witness:
  "(1::int) \<le> 3 \<and>
   (\<exists>cs. batch [1, 2, 3, 4, 5, 6, 7 :: nat] 3 = Inr cs \<and> concat cs = [1, 2, 3, 4, 5, 6, 7]
      \<and> map length cs = [3, 3, 1])"
proof -
  have h: "(1::int) \<le> 3" by simp
  from batch_partition[OF h, of "[1, 2, 3, 4, 5, 6, 7 :: nat]"]
  obtain cs where A: "batch [1, 2, 3, 4, 5, 6, 7 :: nat] 3 = Inr cs \<and>
      concat cs = [1, 2, 3, 4, 5, 6, 7] \<and>
      (\<forall>c\<in>set cs. c \<noteq> [] \<and> int (length c) \<le> 3) \<and>
      (\<forall>k. Suc k < length cs \<longrightarrow> int (length (cs ! k)) = 3) \<and>
      (length [1, 2, 3, 4, 5, 6, 7 :: nat] = 7 \<and> (3::int) = 3 \<longrightarrow> map length cs = [3, 3, 1])" ..
  note b = A[THEN conjunct1]
  note c = A[THEN conjunct2, THEN conjunct1]
  note f = A[THEN conjunct2, THEN conjunct2, THEN conjunct2, THEN conjunct2]
  from f have "map length cs = [3, 3, 1]" by simp
  with b c h show ?thesis by (intro conjI exI[of _ cs])
qed

section \<open>Properties of the outlier filter\<close>

lemma and_then_simps [simp]:
  "and_then (Inl e) f = Inl e" "and_then (Inr v) f = f v"
  by (simp_all add: and_then_def)

lemma st_mean_eq: "xs \<noteq> [] \<Longrightarrow> st_mean xs = Inr (mean_of xs)"
  by (cases xs) (simp_all add: st_mean_def mean_of_def)

lemma st_stdev_eq: "2 \<le> length xs \<Longrightarrow> st_stdev xs = Inr (std_dev_of xs)"
  by (simp add: st_stdev_def std_dev_of_def mean_of_def Let_def)

lemma std_dev_of_nonneg: "0 \<le> std_dev_of xs"
  unfolding std_dev_of_def
  by (intro real_sqrt_ge_zero divide_nonneg_nonneg sum_list_nonneg) auto

lemma keep_point_eq:
  assumes "s0 \<noteq> 0" "s1 \<noteq> 0" "0 \<le> s0" "0 \<le> s1"
  shows "keep_point [m0, m1] [s0, s1] t p
         = Inr (\<bar>fst p - m0\<bar> < t * s0 \<and> \<bar>snd p - m1\<bar> < t * s1)"
proof -
  have pos: "0 < s0" "0 < s1" using assms by simp_all
  have a: "\<bar>m0 - fst p\<bar> / s0 < t \<longleftrightarrow> \<bar>fst p - m0\<bar> < t * s0"
    using pos by (simp add: pos_divide_less_eq abs_minus_commute)
  have b: "\<bar>m1 - snd p\<bar> / s1 < t \<longleftrightarrow> \<bar>snd p - m1\<bar> < t * s1"
    using pos by (simp add: pos_divide_less_eq abs_minus_commute)
  show ?thesis
    using assms(1,2) a b by (simp add: keep_point_def index_def py_div_def)
qed

lemma filter_err_total:
  "(\<And>x. c x = Inr (P x)) \<Longrightarrow> filter_err c xs = Inr (filter P xs)"
  by (induction xs) simp_all

lemma check_loop_filter:
  assumes "\<forall>S \<in> set points. 2 \<le> length S \<and> std_dev_of (map fst S) \<noteq> 0
              \<and> std_dev_of (map snd S) \<noteq> 0"
  shows "check_loop points t acc = Inr (acc @ map (\<lambda>S. filter (within_threshold t S) S) points)"
  using assms
proof (induction points arbitrary: acc)
  case Nil
  then show ?case by simp
next
  case (Cons S rest)
  then have len: "2 \<le> length S" and s0: "std_dev_of (map fst S) \<noteq> 0"
    and s1: "std_dev_of (map snd S) \<noteq> 0" by simp_all
  from len have ne: "S \<noteq> []" by auto
  have mean: "map_err st_mean (zip_star S) = Inr [mean_of (map fst S), mean_of (map snd S)]"
    using ne by (simp add: zip_star_def st_mean_eq)
  have sd: "map_err st_stdev (zip_star S) = Inr [std_dev_of (map fst S), std_dev_of (map snd S)]"
    using ne len by (simp add: zip_star_def st_stdev_eq)
  have flt: "filter_err (keep_point [mean_of (map fst S), mean_of (map snd S)]
                [std_dev_of (map fst S), std_dev_of (map snd S)] t) S
              = Inr (filter (within_threshold t S) S)"
    by (rule filter_err_total)
       (simp add: keep_point_eq[OF s0 s1 std_dev_of_nonneg std_dev_of_nonneg] within_threshold_def)
  from Cons.IH[of "acc @ [filter (within_threshold t S) S]"] Cons.prems
  show ?case by (simp add: mean sd flt)
qed

text \<open>
  Claim C4. When every set has at least two points and a nonzero standard deviation in both
  coordinates, \<open>check_isochrones\<close> returns one filtered set per input set, in the same order;
  each filtered set holds, in their original order, exactly the points of its own input set whose
  latitude and longitude are both within \<open>t\<close> standard deviations (strictly less than
  \<open>t\<close> times the sample standard deviation) of that set's own means. The means and deviations
  of the other sets do not occur.
\<close>

theorem check_isochrones_filters:
  assumes "\<forall>S \<in> set points. 2 \<le> length S \<and> std_dev_of (map fst S) \<noteq> 0
              \<and> std_dev_of (map snd S) \<noteq> 0"
  shows "check_isochrones points t = Inr (map (\<lambda>S. filter (within_threshold t S) S) points)"
  using check_loop_filter[OF assms, of t "[]"] by (simp add: check_isochrones_def)

lemma sd_example: "std_dev_of [0, 0, 0, 0, 0, 0, 0, 0, 9] = 3"
proof -
  have "sqrt 9 = sqrt (3\<^sup>2)" by simp
  also have "\<dots> = 3" by (simp del: real_sqrt_abs)
  finally have "sqrt 9 = 3" .
  then show ?thesis by (simp add: std_dev_of_def mean_of_def)
qed

theorem check_isochrones_filters_witness:
  "2 \<le> length [(0 :: real, 0 :: real), (0, 0), (0, 0), (0, 0), (0, 0), (0, 0), (0, 0), (0, 0), (9, 9)] \<and>
   std_dev_of (map fst [(0 :: real, 0 :: real), (0, 0), (0, 0), (0, 0), (0, 0), (0, 0), (0, 0), (0, 0), (9, 9)]) = 3 \<and>
   std_dev_of (map snd [(0 :: real, 0 :: real), (0, 0), (0, 0), (0, 0), (0, 0), (0, 0), (0, 0), (0, 0), (9, 9)]) = 3 \<and>
   check_isochrones [[(0, 0), (0, 0), (0, 0), (0, 0), (0, 0), (0, 0), (0, 0), (0, 0), (9, 9)]] 2
     = Inr [[(0, 0), (0, 0), (0, 0), (0, 0), (0, 0), (0, 0), (0, 0), (0, 0)]]"
proof -
  have h: "\<forall>S \<in> set [[(0, 0), (0, 0), (0, 0), (0, 0), (0, 0), (0, 0), (0, 0), (0, 0), (9::real, 9::real)]].
      2 \<le> length S \<and> std_dev_of (map fst S) \<noteq> 0 \<and> std_dev_of (map snd S) \<noteq> 0"
    by (simp add: sd_example)
  have m: "mean_of [0, 0, 0, 0, 0, 0, 0, 0, 9] = 1" by (simp add: mean_of_def)
  have "check_isochrones [[(0, 0), (0, 0), (0, 0), (0, 0), (0, 0), (0, 0), (0, 0), (0, 0), (9, 9)]] 2
     = Inr [[(0, 0), (0, 0), (0, 0), (0, 0), (0, 0), (0, 0), (0, 0), (0, 0)]]"
    using check_isochrones_filters[OF h, of 2]
    by (simp add: within_threshold_def sd_example m)
  then show ?thesis by (simp add: sd_example)
qed

lemma check_loop_append:
  "check_loop (pre @ rest) t acc = and_then (check_loop pre t acc) (check_loop rest t)"
  by (induction pre arbitrary: acc) (auto simp: and_then_def split: sum.splits)

lemma check_loop_one_point:
  "length S = 1 \<Longrightarrow> check_loop (S # post) t acc = Inl StatisticsError"
  by (cases S) (simp_all add: zip_star_def st_mean_def st_stdev_def)

lemma check_loop_empty_set:
  "check_loop ([] # rest) t acc = check_loop rest t (acc @ [[]])"
  by (simp add: zip_star_def)

text \<open>
  Claim C7, as stated, fails: a set with no points has fewer than two points, and the filter
  returns an empty filtered set for it.
\<close>

theorem check_isochrones_empty_set_counterexample:
  "length ([] :: point list) < 2 \<and> check_isochrones [[]] 2 = Inr [[]]"
  by (simp add: check_isochrones_def zip_star_def)

text \<open>
  Claim C7, amended. When the input contains a set with exactly one point, \<open>check_isochrones\<close>
  raises and returns no filtered set at all; the exception is \<open>StatisticsError\<close> when the sets
  before that one are filtered without an exception.
\<close>

theorem check_isochrones_one_point_fails:
  assumes "S \<in> set points" "length S = 1"
  shows "(\<exists>e. check_isochrones points t = Inl e) \<and>
         (\<forall>pre post r. points = pre @ S # post \<and> check_isochrones pre t = Inr r
            \<longrightarrow> check_isochrones points t = Inl StatisticsError)"
proof
  from assms(1) obtain pre post where p: "points = pre @ S # post"
    by (auto dest: split_list)
  show "\<exists>e. check_isochrones points t = Inl e"
    unfolding p check_isochrones_def check_loop_append
    by (cases "check_loop pre t []")
       (simp_all add: check_loop_one_point[OF assms(2)] del: check_loop.simps)
  show "\<forall>pre post r. points = pre @ S # post \<and> check_isochrones pre t = Inr r
            \<longrightarrow> check_isochrones points t = Inl StatisticsError"
    by (auto simp: check_isochrones_def check_loop_append check_loop_one_point[OF assms(2)]
             simp del: check_loop.simps)
qed

theorem check_isochrones_one_point_fails_witness:
  "[(1 :: real, 2 :: real)] \<in> set [[(1, 2)]] \<and> length [(1 :: real, 2 :: real)] = 1 \<and>
   check_isochrones [[(1, 2)]] 2 = Inl StatisticsError"
proof -
  have a: "[(1 :: real, 2 :: real)] \<in> set [[(1, 2)]]" by simp
  have b: "length [(1 :: real, 2 :: real)] = 1" by simp
  have c: "check_isochrones [] 2 = Inr []" by (simp add: check_isochrones_def)
  from check_isochrones_one_point_fails[OF a b, of 2]
  have "\<forall>pre post r. [[(1 :: real, 2 :: real)]] = pre @ [(1, 2)] # post \<and> check_isochrones pre 2 = Inr r
            \<longrightarrow> check_isochrones [[(1, 2)]] 2 = Inl StatisticsError" by (rule conjunct2)
  then have "[[(1 :: real, 2 :: real)]] = [] @ [(1, 2)] # [] \<and> check_isochrones [] 2 = Inr []
            \<longrightarrow> check_isochrones [[(1, 2)]] 2 = Inl StatisticsError" by blast
  with c have "check_isochrones [[(1, 2)]] 2 = Inl StatisticsError" by simp
  with a b show ?thesis by simp
qed

subsection \<open>Zero standard deviation\<close>

lemma sum_list_const: "\<forall>x \<in> set xs. x = a \<Longrightarrow> sum_list xs = real (length xs) * a"
  by (induction xs) (simp_all add: algebra_simps)

lemma mean_of_const: "xs \<noteq> [] \<Longrightarrow> \<forall>x \<in> set xs. x = a \<Longrightarrow> mean_of xs = a"
  by (simp add: mean_of_def sum_list_const)

lemma std_dev_of_const:
  assumes "xs \<noteq> []" "\<forall>x \<in> set xs. x = a"
  shows "std_dev_of xs = 0"
proof -
  have "\<forall>y \<in> set (map (\<lambda>x. (x - mean_of xs) ^ 2) xs). y = 0"
    using assms by (simp add: mean_of_const[OF assms])
  from sum_list_const[OF this] show ?thesis by (simp add: std_dev_of_def)
qed

lemma sum_list_ge_const:
  "\<forall>x \<in> set xs. c \<le> f x \<Longrightarrow> real (length xs) * c \<le> sum_list (map f xs)"
  by (induction xs) (simp_all add: algebra_simps)

lemma some_point_within_one_sd:
  assumes "2 \<le> length xs" "std_dev_of xs \<noteq> 0"
  shows "\<exists>x \<in> set xs. \<bar>mean_of xs - x\<bar> < std_dev_of xs"
proof (rule ccontr)
  define ss where "ss = sum_list (map (\<lambda>x. (x - mean_of xs) ^ 2) xs)"
  define n where "n = real (length xs)"
  assume "\<not> ?thesis"
  then have far: "\<forall>x \<in> set xs. std_dev_of xs \<le> \<bar>mean_of xs - x\<bar>" by auto
  have n: "2 \<le> n" using assms(1) by (simp add: n_def)
  have ss0: "0 \<le> ss" unfolding ss_def by (rule sum_list_nonneg) auto
  have sd2: "(std_dev_of xs) ^ 2 = ss / (n - 1)"
    using assms(1) ss0 n by (simp add: std_dev_of_def ss_def n_def of_nat_diff)
  have sdpos: "0 < std_dev_of xs" using std_dev_of_nonneg[of xs] assms(2) by simp
  then have "0 < (std_dev_of xs) ^ 2" by simp
  with sd2 n have sspos: "0 < ss" by (simp add: zero_less_divide_iff)
  have "\<forall>x \<in> set xs. (std_dev_of xs) ^ 2 \<le> (x - mean_of xs) ^ 2"
  proof
    fix x assume "x \<in> set xs"
    with far have "std_dev_of xs \<le> \<bar>mean_of xs - x\<bar>" by simp
    then have "(std_dev_of xs) ^ 2 \<le> \<bar>mean_of xs - x\<bar> ^ 2"
      using std_dev_of_nonneg[of xs] by (intro power_mono) simp_all
    then show "(std_dev_of xs) ^ 2 \<le> (x - mean_of xs) ^ 2"
      by (simp add: power2_commute)
  qed
  from sum_list_ge_const[OF this] have "n * (ss / (n - 1)) \<le> ss"
    by (simp add: sd2 ss_def n_def)
  then have "n * ss \<le> ss * (n - 1)"
    using n by (simp add: pos_le_divide_eq mult.commute field_simps)
  then have "ss \<le> 0" by (simp add: algebra_simps)
  with sspos show False by simp
qed

lemma filter_err_raises:
  assumes "\<exists>x \<in> set xs. c x = Inl e" "\<forall>x \<in> set xs. c x = Inl e \<or> (\<exists>b. c x = Inr b)"
  shows "filter_err c xs = Inl e"
  using assms
proof (induction xs)
  case Nil
  then show ?case by simp
next
  case (Cons x xs)
  show ?case
  proof (cases "c x")
    case (Inl e')
    with Cons.prems(2) show ?thesis by simp
  next
    case (Inr b)
    with Cons.prems have "\<exists>x \<in> set xs. c x = Inl e" by auto
    with Cons.IH Cons.prems(2) Inr show ?thesis by simp
  qed
qed

lemma keep_point_zero_lat: "keep_point [m0, m1] [0, s1] t x = Inl ZeroDivisionError"
  by (simp add: keep_point_def index_def py_div_def)

lemma keep_point_zero_lng:
  "s0 \<noteq> 0 \<Longrightarrow> keep_point [m0, m1] [s0, 0] t x =
     (if \<bar>m0 - fst x\<bar> / s0 < t then Inl ZeroDivisionError else Inr False)"
  by (simp add: keep_point_def index_def py_div_def)

lemma check_loop_zero_deviation:
  assumes len: "2 \<le> length S"
    and same: "(\<forall>p \<in> set S. fst p = a) \<or> (\<forall>p \<in> set S. snd p = a)"
    and t: "1 \<le> t"
  shows "check_loop (S # post) t acc = Inl ZeroDivisionError"
proof -
  from len have ne: "S \<noteq> []" by auto
  let ?m0 = "mean_of (map fst S)" and ?m1 = "mean_of (map snd S)"
  let ?s0 = "std_dev_of (map fst S)" and ?s1 = "std_dev_of (map snd S)"
  have mean: "map_err st_mean (zip_star S) = Inr [?m0, ?m1]"
    using ne by (simp add: zip_star_def st_mean_eq)
  have sd: "map_err st_stdev (zip_star S) = Inr [?s0, ?s1]"
    using ne len by (simp add: zip_star_def st_stdev_eq)
  have "filter_err (keep_point [?m0, ?m1] [?s0, ?s1] t) S = Inl ZeroDivisionError"
  proof (cases "?s0 = 0")
    case True
    from ne obtain x where "x \<in> set S" by (cases S) auto
    then have "\<exists>x \<in> set S. keep_point [?m0, ?m1] [?s0, ?s1] t x = Inl ZeroDivisionError"
      unfolding True keep_point_zero_lat by (intro bexI[of _ x]) simp_all
    then show ?thesis
      by (rule filter_err_raises) (simp add: True keep_point_zero_lat)
  next
    case False
    with same have "\<forall>p \<in> set S. snd p = a"
      using std_dev_of_const[of "map fst S" a] ne by auto
    then have s1: "?s1 = 0"
      using std_dev_of_const[of "map snd S" a] ne by auto
    from some_point_within_one_sd[of "map fst S"] len False
    obtain p where p: "p \<in> set S" "\<bar>?m0 - fst p\<bar> < ?s0" by auto
    have pos: "0 < ?s0" using False std_dev_of_nonneg[of "map fst S"] by simp
    with p(2) have "\<bar>?m0 - fst p\<bar> / ?s0 < 1" by simp
    with t have "\<bar>?m0 - fst p\<bar> / ?s0 < t" by simp
    with p(1) have ex: "\<exists>x \<in> set S. keep_point [?m0, ?m1] [?s0, ?s1] t x = Inl ZeroDivisionError"
      unfolding s1 keep_point_zero_lng[OF False] by (intro bexI[of _ p]) simp_all
    show ?thesis
      by (rule filter_err_raises[OF ex]) (auto simp: s1 keep_point_zero_lng[OF False])
  qed
  then show ?thesis by (simp add: mean sd)
qed

text \<open>
  Claim C10. A set with two or more points whose points all share the same latitude, or all share
  the same longitude, makes \<open>check_isochrones\<close> raise \<open>ZeroDivisionError\<close>, for every threshold
  of at least 1 (the default is 2), when the sets before it are filtered without an exception.
\<close>

theorem check_isochrones_zero_deviation:
  assumes "2 \<le> length S"
    and "(\<forall>p \<in> set S. fst p = a) \<or> (\<forall>p \<in> set S. snd p = a)"
    and "1 \<le> t"
    and "check_isochrones pre t = Inr r"
  shows "check_isochrones (pre @ S # post) t = Inl ZeroDivisionError"
  using assms(4) check_loop_zero_deviation[OF assms(1-3)]
  by (simp add: check_isochrones_def check_loop_append del: check_loop.simps)

theorem check_isochrones_zero_deviation_witness:
  "2 \<le> length [(1 :: real, 5 :: real), (2, 5)] \<and>
   ((\<forall>p \<in> set [(1 :: real, 5 :: real), (2, 5)]. fst p = 5) \<or>
    (\<forall>p \<in> set [(1 :: real, 5 :: real), (2, 5)]. snd p = 5)) \<and>
   (1 :: real) \<le> 2 \<and> check_isochrones [] 2 = Inr [] \<and>
   check_isochrones [[(1, 5), (2, 5)]] 2 = Inl ZeroDivisionError"
proof -
  have a: "2 \<le> length [(1 :: real, 5 :: real), (2, 5)]" by simp
  have b: "(\<forall>p \<in> set [(1 :: real, 5 :: real), (2, 5)]. fst p = 5) \<or>
           (\<forall>p \<in> set [(1 :: real, 5 :: real), (2, 5)]. snd p = 5)" by simp
  have c: "(1 :: real) \<le> 2" by simp
  have d: "check_isochrones [] 2 = Inr []" by (simp add: check_isochrones_def)
  from check_isochrones_zero_deviation[OF a b c d, of "[]"]
  have "check_isochrones [[(1, 5), (2, 5)]] 2 = Inl ZeroDivisionError" by simp
  with a b c d show ?thesis by blast
qed

section \<open>Properties of \<open>iterate_isochrones\<close>\<close>

lemma map_err_swapped:
  "map_err (\<lambda>x. geometry_Polygon (map (\<lambda>p. (snd p, fst p)) x)) sets =
   (case map_err (\<lambda>x. geometry_Polygon (map (\<lambda>p. (fst p, snd p)) x)) sets of
      Inl e \<Rightarrow> Inl e
    | Inr polys \<Rightarrow> Inr (map swap_polygon polys))"
proof (induction sets)
  case Nil
  then show ?case by simp
next
  case (Cons x sets)
  then show ?case
    by (auto simp: geometry_Polygon_def swap_polygon_def split: sum.splits)
qed

text \<open>
  Claim C5. For the same origins, key, duration and routing results, the polygons built with
  the swap flag are, polygon for polygon and point for point, those built without it with every
  coordinate pair reversed; the call with the flag raises exactly when the call without it does.
\<close>

theorem iterate_isochrones_swap:
  "iterate_isochrones get_isochrone coords key duration True =
   (case iterate_isochrones get_isochrone coords key duration False of
      Inl e \<Rightarrow> Inl e
    | Inr polys \<Rightarrow> Inr (map swap_polygon polys))"
proof (cases "map_err (\<lambda>x. get_isochrone x key duration 2) coords")
  case (Inl e)
  then show ?thesis by (simp add: iterate_isochrones_def)
next
  case raw: (Inr raw_points)
  show ?thesis
  proof (cases "check_isochrones raw_points 2")
    case (Inl e)
    with raw show ?thesis by (simp add: iterate_isochrones_def)
  next
    case (Inr iso_points)
    with raw show ?thesis
      by (simp add: iterate_isochrones_def map_err_swapped)
  qed
qed

theorem iterate_isochrones_swap_witness:
  "iterate_isochrones (\<lambda>x k d tol. Inr [(0, 0), (1, 2), (2, 1)]) [CCoords [5, 6]] ''k'' (DInt 15) False
     = Inr [Polygon [(0, 0), (1, 2), (2, 1)]] \<and>
   iterate_isochrones (\<lambda>x k d tol. Inr [(0, 0), (1, 2), (2, 1)]) [CCoords [5, 6]] ''k'' (DInt 15) True
     = Inr [Polygon [(0, 0), (2, 1), (1, 2)]]"
proof -
  have h: "\<forall>S \<in> set [[(0, 0), (1, 2), (2 :: real, 1 :: real)]].
      2 \<le> length S \<and> std_dev_of (map fst S) \<noteq> 0 \<and> std_dev_of (map snd S) \<noteq> 0"
    by (simp add: std_dev_of_def mean_of_def)
  have flt: "check_isochrones [[(0, 0), (1, 2), (2, 1)]] 2 = Inr [[(0, 0), (1, 2), (2, 1)]]"
    using check_loop_filter[OF h, of 2 "[]"]
    by (simp add: check_isochrones_def within_threshold_def std_dev_of_def mean_of_def)
  have plain: "iterate_isochrones (\<lambda>x k d tol. Inr [(0, 0), (1, 2), (2, 1)]) [CCoords [5, 6]]
      ''k'' (DInt 15) False = Inr [Polygon [(0, 0), (1, 2), (2, 1)]]"
    by (simp add: iterate_isochrones_def flt geometry_Polygon_def)
  from iterate_isochrones_swap[of "\<lambda>x k d tol. Inr [(0, 0), (1, 2), (2, 1)]" "[CCoords [5, 6]]"
      "''k''" "DInt 15"] plain
  show ?thesis by (simp add: swap_polygon_def)
qed

section \<open>Evaluating the table functions\<close>

text \<open>
  A routing collaborator that answers every request with the same three boundary points, none
  of which the outlier filter removes.
\<close>

lemma check_isochrones_triangles:
  "check_isochrones (replicate n [(0, 0), (1, 2), (2, 1)]) 2
     = Inr (replicate n [(0, 0), (1, 2), (2, 1)])"
proof -
  have h: "\<forall>S \<in> set (replicate n [(0, 0), (1, 2), (2 :: real, 1 :: real)]).
      2 \<le> length S \<and> std_dev_of (map fst S) \<noteq> 0 \<and> std_dev_of (map snd S) \<noteq> 0"
    by (simp add: std_dev_of_def mean_of_def)
  have "filter (within_threshold 2 [(0, 0), (1, 2), (2, 1)]) [(0, 0), (1, 2), (2, 1)]
          = [(0, 0), (1, 2), (2, 1)]"
    by (simp add: within_threshold_def std_dev_of_def mean_of_def)
  then show ?thesis
    using check_loop_filter[OF h, of 2 "[]"]
    by (simp add: check_isochrones_def map_replicate_const)
qed

lemma map_err_const: "map_err (\<lambda>x. Inr c) xs = Inr (replicate (length xs) c)"
  by (induction xs) simp_all

lemma map_err_total: "map_err (\<lambda>x. Inr (f x)) xs = Inr (map f xs)"
  by (induction xs) simp_all

lemma map_err_replicate: "f x = Inr y \<Longrightarrow> map_err f (replicate n x) = Inr (replicate n y)"
  by (induction n) simp_all

lemma iterate_isochrones_triangles:
  "iterate_isochrones (\<lambda>x k d tol. Inr [(0, 0), (1, 2), (2, 1)]) coords key duration True
     = Inr (replicate (length coords) (Polygon [(0, 0), (2, 1), (1, 2)]))"
proof -
  have "map_err (\<lambda>x. geometry_Polygon (map (\<lambda>p. (snd p, fst p)) x))
          (replicate (length coords) [(0, 0), (1, 2), (2, 1)])
        = Inr (replicate (length coords) (Polygon [(0, 0), (2, 1), (1, 2)]))"
    by (rule map_err_replicate) (simp add: geometry_Polygon_def)
  then show ?thesis
    by (simp add: iterate_isochrones_def map_err_const check_isochrones_triangles)
qed

text \<open>
  Claim C6 does not hold of the code. For a table of two rows, \<open>shp_to_isochrones\<close> returns
  the wide table for the scalar duration \<open>15\<close>, and raises \<open>ValueError\<close> for the list \<open>[15]\<close>:
  the one-element list takes the branch of the scalar, but it is assigned as it is to the
  column \<open>duration\<close>, and its length is not the number of rows.
\<close>

theorem shp_to_isochrones_one_element_list:
  "shp_to_isochrones (\<lambda>x k d tol. Inr [(0, 0), (1, 2), (2, 1)])
     \<lparr>row_labels = [0, 1],
      cols = [(SCol ''GEOID'', [CInt 17, CInt 18]), (SCol ''geometry'', [CGeom 1 2, CGeom 3 4])]\<rparr>
     ''k'' (DInt 15) KNone True
   = Inr \<lparr>row_labels = [0, 1],
          cols = [(SCol ''coords'', [CCoords [2, 1], CCoords [4, 3]]),
                  (SCol ''duration'', [CInt 15, CInt 15]),
                  (SCol ''geometry'', [CPoly (Polygon [(0, 0), (2, 1), (1, 2)]),
                                       CPoly (Polygon [(0, 0), (2, 1), (1, 2)])])]\<rparr> \<and>
   shp_to_isochrones (\<lambda>x k d tol. Inr [(0, 0), (1, 2), (2, 1)])
     \<lparr>row_labels = [0, 1],
      cols = [(SCol ''GEOID'', [CInt 17, CInt 18]), (SCol ''geometry'', [CGeom 1 2, CGeom 3 4])]\<rparr>
     ''k'' (DList [15]) KNone True
   = Inl ValueError"
  by (simp add: shp_to_isochrones_def get_centroids_def get_column_def centroid_x_def
        centroid_y_def set_list_def empty_frame_def adopt_index_def put_column_def
        range_index_def single_duration_def set_duration_def set_scalar_def nrows_def
        iterate_isochrones_triangles upt_rec)

section \<open>Runs of \<open>isochrone_batch\<close> on a table of two rows\<close>

lemma str_int_15: "str_int 15 = ''15''"
  by (simp add: str_int_def str_nat.simps)

lemma int_literal_15: "int_literal ''15'' = Some 15"
  by (simp add: int_literal_def digit_val_def upt_rec)

lemma range_step_2_5: "range_step 0 2 5 = [0]"
  by (simp add: range_step.simps)

lemma first_run_chunks:
  "batch_with (slice_frame two_rows) (nrows two_rows) 5 = Inr [two_rows]"
proof -
  have n: "nrows two_rows = 2" by (simp add: nrows_def two_rows_def)
  show ?thesis
    unfolding batch_with_def n
    by (simp add: range_step_2_5 slice_frame_def slice_def two_rows_def)
qed

lemma shp_two_rows:
  "shp_to_isochrones triangles two_rows ''k'' (DInt 15) KNone True
   = Inr (chunk_table [0, 1] [CCoords [2, 1], CCoords [4, 3]] [CInt 15, CInt 15]
            [CPoly (Polygon [(0, 0), (2, 1), (1, 2)]), CPoly (Polygon [(0, 0), (2, 1), (1, 2)])])"
  unfolding triangles_def two_rows_def chunk_table_def
  by (simp add: shp_to_isochrones_def get_centroids_def get_column_def centroid_x_def
        centroid_y_def set_list_def empty_frame_def adopt_index_def put_column_def
        range_index_def single_duration_def set_duration_def set_scalar_def nrows_def
        iterate_isochrones_triangles upt_rec)

lemma read_csv_ledger: "read_csv (ledger ids cs ds gs) = Inr (read_ledger ids cs ds gs)"
  by (simp add: read_csv_def ledger_def read_ledger_def)

lemma length_read_column [simp]: "length (read_column texts) = length texts"
  by (simp add: read_column_def)

lemma field_of_simps [simp]:
  "field_of str_of CNaN = []" "field_of str_of (CInt n) = str_int n"
  by (simp_all add: field_of_def)

lemma append_ledger:
  "to_csv str_of (append_frames (read_ledger ids cs ds gs) (chunk_table l c d g))
   = ledger (map (field_of str_of) (read_column ids) @ replicate (length l) [])
            (map (field_of str_of) (read_column cs @ c))
            (map (field_of str_of) (read_column ds @ d))
            (map (field_of str_of) (read_column gs @ g))"
  by (simp add: to_csv_def append_frames_def read_ledger_def chunk_table_def column_or_nan_def
        nrows_def name_text_def ledger_def)

lemma append_header:
  "and_then (read_csv header_only)
     (\<lambda>old. Inr (to_csv str_of (append_frames old (chunk_table l c d g))))
   = Inr (ledger (replicate (length l) []) (map (field_of str_of) c)
            (map (field_of str_of) d) (map (field_of str_of) g))"
  by (simp add: read_csv_def header_only_def read_column_def range_index_def to_csv_def
        append_frames_def chunk_table_def column_or_nan_def nrows_def name_text_def ledger_def)

lemma loop_step_header:
  assumes "shp_to_isochrones r chunk key duration keep_cols True = Inr (chunk_table l c d g)"
  shows "batch_loop r str_of key out duration keep_cols (chunk # rest) [out \<mapsto> header_only]
         = batch_loop r str_of key out duration keep_cols rest
             [out \<mapsto> ledger (replicate (length l) []) (map (field_of str_of) c)
                (map (field_of str_of) d) (map (field_of str_of) g)]"
  using append_header[of str_of l c d g]
  by (auto simp: assms and_then_def split: sum.splits)

lemma loop_step_ledger:
  assumes "shp_to_isochrones r chunk key duration keep_cols True = Inr (chunk_table l c d g)"
  shows "batch_loop r str_of key out duration keep_cols (chunk # rest)
           [out \<mapsto> ledger ids cs ds gs]
         = batch_loop r str_of key out duration keep_cols rest
             [out \<mapsto> ledger (map (field_of str_of) (read_column ids) @ replicate (length l) [])
                (map (field_of str_of) (read_column cs @ c))
                (map (field_of str_of) (read_column ds @ d))
                (map (field_of str_of) (read_column gs @ g))]"
  by (simp add: assms read_csv_ledger append_ledger)

lemma loop_step_raises:
  assumes "shp_to_isochrones r chunk key duration keep_cols True = Inl e"
  shows "batch_loop r str_of key out duration keep_cols (chunk # rest) fs = (Some e, fs)"
  by (simp add: assms)

lemma open_fresh:
  "open_output str_of ''out.csv'' ''GEOID'' \<lparr>caller_gdf = g, files = Map.empty\<rparr>
   = Inr (\<lparr>row_labels = [], cols = [(SCol ''GEOID'', [])]\<rparr>,
          \<lparr>caller_gdf = g, files = [''out.csv'' \<mapsto> header_only]\<rparr>)"
  by (simp add: open_output_def set_scalar_def empty_frame_def put_column_def nrows_def
        to_csv_def name_text_def header_only_def)

lemma two_rows_ids: "get_column two_rows (SCol ''GEOID'') = Inr [CInt 17, CInt 18]"
  by (simp add: get_column_def two_rows_def)

lemma open_ledger:
  "open_output str_of ''out.csv'' ''GEOID''
     \<lparr>caller_gdf = two_rows, files = [''out.csv'' \<mapsto> ledger ids cs ds gs]\<rparr>
   = Inr (read_ledger ids cs ds gs,
          \<lparr>caller_gdf = two_rows, files = [''out.csv'' \<mapsto> ledger ids cs ds gs]\<rparr>)"
proof -
  have "put_column two_rows (SCol ''GEOID'') [CInt 17, CInt 18] = two_rows"
    by (simp add: put_column_def two_rows_def)
  then show ?thesis
    by (simp add: open_output_def read_csv_ledger two_rows_ids astype_int_def to_int_def)
qed

lemma read_column_empties:
  "list_all (\<lambda>t. t = []) ids \<Longrightarrow> read_column ids = map (\<lambda>t. CNaN) ids"
  by (induction ids) (auto simp: read_column_def int_literal_def list_all_iff)

lemma all_unfinished:
  "and_then (unfinished_idx two_rows \<lparr>row_labels = [], cols = [(SCol ''GEOID'', [])]\<rparr> ''GEOID'')
     (\<lambda>unfinished. and_then (get_column two_rows (SCol ''GEOID'')) (\<lambda>ids.
        Inr (mask_frame two_rows (isin ids unfinished)))) = Inr two_rows"
  by (simp add: unfinished_idx_def two_rows_def get_column_def isin_def mask_frame_def
        select_mask_def)

lemma still_unfinished:
  assumes "list_all (\<lambda>t. t = []) ids"
  shows "unfinished_idx two_rows (read_ledger ids cs ds gs) ''GEOID'' = Inr [CInt 17, CInt 18]"
proof -
  have "get_column (read_ledger ids cs ds gs) (SCol ''GEOID'') = Inr (map (\<lambda>t. CNaN) ids)"
    by (simp add: get_column_def read_ledger_def read_column_empties[OF assms])
  then show ?thesis
    by (auto simp: unfinished_idx_def two_rows_ids)
qed

lemma all_unfinished_again:
  assumes "list_all (\<lambda>t. t = []) ids"
  shows "and_then (unfinished_idx two_rows (read_ledger ids cs ds gs) ''GEOID'')
     (\<lambda>unfinished. and_then (get_column two_rows (SCol ''GEOID'')) (\<lambda>ids.
        Inr (mask_frame two_rows (isin ids unfinished)))) = Inr two_rows"
  by (simp add: still_unfinished[OF assms] two_rows_ids isin_def)
     (simp add: mask_frame_def select_mask_def two_rows_def)

subsection \<open>A routing failure in the second chunk\<close>

lemma range_step_2_1: "range_step 0 2 (Suc 0) = [0, 1]"
  by (simp add: range_step.simps)

lemma chunks_of_one:
  "batch_with (slice_frame two_rows) (nrows two_rows) 1 = Inr [row0, row1]"
proof -
  have n: "nrows two_rows = 2" by (simp add: nrows_def two_rows_def)
  show ?thesis
    unfolding batch_with_def n
    by (simp add: range_step_2_1 slice_frame_def slice_def two_rows_def row0_def row1_def)
qed

lemma iterate_one_ok:
  "x \<noteq> CCoords [4, 3] \<Longrightarrow>
   iterate_isochrones fails_at_second [x] key duration True
     = Inr [Polygon [(0, 0), (2, 1), (1, 2)]]"
  using check_isochrones_triangles[of 1]
  by (simp add: iterate_isochrones_def fails_at_second_def geometry_Polygon_def)

lemma shp_row0_failing:
  "shp_to_isochrones fails_at_second row0 ''k'' (DInt 15) KNone True = Inr table0"
  unfolding row0_def table0_def chunk_table_def
  by (simp add: shp_to_isochrones_def get_centroids_def get_column_def centroid_x_def
        centroid_y_def set_list_def empty_frame_def adopt_index_def put_column_def
        range_index_def single_duration_def set_duration_def set_scalar_def nrows_def
        iterate_one_ok)

lemma shp_row1_failing:
  "shp_to_isochrones fails_at_second row1 ''k'' (DInt 15) KNone True = Inl RoutingError"
  unfolding row1_def
  by (simp add: shp_to_isochrones_def get_centroids_def get_column_def centroid_x_def
        centroid_y_def set_list_def empty_frame_def adopt_index_def put_column_def
        range_index_def single_duration_def set_duration_def set_scalar_def nrows_def
        iterate_isochrones_def fails_at_second_def)

lemma shp_row0:
  "shp_to_isochrones triangles row0 ''k'' (DInt 15) KNone True = Inr table0"
  unfolding row0_def table0_def chunk_table_def triangles_def
  by (simp add: shp_to_isochrones_def get_centroids_def get_column_def centroid_x_def
        centroid_y_def set_list_def empty_frame_def adopt_index_def put_column_def
        range_index_def single_duration_def set_duration_def set_scalar_def nrows_def
        iterate_isochrones_triangles)

lemma shp_row1:
  "shp_to_isochrones triangles row1 ''k'' (DInt 15) KNone True = Inr table1"
  unfolding row1_def table1_def chunk_table_def triangles_def
  by (simp add: shp_to_isochrones_def get_centroids_def get_column_def centroid_x_def
        centroid_y_def set_list_def empty_frame_def adopt_index_def put_column_def
        range_index_def single_duration_def set_duration_def set_scalar_def nrows_def
        iterate_isochrones_triangles)

lemma read_column_15:
  "read_column [''15''] = [CInt 15]" "read_column [''15'', ''15''] = [CInt 15, CInt 15]"
  by (simp_all add: read_column_def int_literal_15)

lemma read_column_empty:
  "read_column [[]] = [CNaN]" "read_column [[], []] = [CNaN, CNaN]"
  by (simp_all add: read_column_def int_literal_def)

lemma first_run:
  "isochrone_batch triangles str_of ''k'' ''out.csv'' ''GEOID'' (DInt 15) KNone 5
     \<lparr>caller_gdf = two_rows, files = Map.empty\<rparr>
   = (None, \<lparr>caller_gdf = two_rows, files = [''out.csv'' \<mapsto>
        ledger [[], []] [str_of (CCoords [2, 1]), str_of (CCoords [4, 3])] [''15'', ''15'']
          [str_of (CPoly (Polygon [(0, 0), (2, 1), (1, 2)])),
           str_of (CPoly (Polygon [(0, 0), (2, 1), (1, 2)]))]]\<rparr>)"
  by (simp add: isochrone_batch_def open_fresh all_unfinished first_run_chunks
        loop_step_header[OF shp_two_rows] field_of_def str_int_15 del: batch_loop.simps(2))

lemma second_run:
  "\<exists>cs gs. isochrone_batch triangles str_of ''k'' ''out.csv'' ''GEOID'' (DInt 15) KNone 5
     \<lparr>caller_gdf = two_rows, files = [''out.csv'' \<mapsto> ledger [[], []] cs0 [''15'', ''15''] gs0]\<rparr>
   = (None, \<lparr>caller_gdf = two_rows, files = [''out.csv'' \<mapsto>
        ledger [[], [], [], []] cs [''15'', ''15'', ''15'', ''15''] gs]\<rparr>)"
proof -
  have "isochrone_batch triangles str_of ''k'' ''out.csv'' ''GEOID'' (DInt 15) KNone 5
     \<lparr>caller_gdf = two_rows, files = [''out.csv'' \<mapsto> ledger [[], []] cs0 [''15'', ''15''] gs0]\<rparr>
   = (None, \<lparr>caller_gdf = two_rows, files = [''out.csv'' \<mapsto>
        ledger [[], [], [], []]
          (map (field_of str_of) (read_column cs0 @ [CCoords [2, 1], CCoords [4, 3]]))
          [''15'', ''15'', ''15'', ''15'']
          (map (field_of str_of) (read_column gs0 @
             [CPoly (Polygon [(0, 0), (2, 1), (1, 2)]),
              CPoly (Polygon [(0, 0), (2, 1), (1, 2)])]))]\<rparr>)"
    by (simp add: isochrone_batch_def open_ledger first_run_chunks all_unfinished_again
          loop_step_ledger[OF shp_two_rows] read_column_15 read_column_empty str_int_15
          del: batch_loop.simps(2))
  then show ?thesis by blast
qed

lemma failed_run:
  "isochrone_batch fails_at_second str_of ''k'' ''out.csv'' ''GEOID'' (DInt 15) KNone 1
     \<lparr>caller_gdf = two_rows, files = Map.empty\<rparr>
   = (Some RoutingError, \<lparr>caller_gdf = two_rows, files = [''out.csv'' \<mapsto>
        ledger [[]] [str_of (CCoords [2, 1])] [''15'']
          [str_of (CPoly (Polygon [(0, 0), (2, 1), (1, 2)]))]]\<rparr>)"
  by (simp add: isochrone_batch_def open_fresh all_unfinished chunks_of_one
        loop_step_header[OF shp_row0_failing[unfolded table0_def]]
        loop_step_raises[OF shp_row1_failing] field_of_def str_int_15
        del: batch_loop.simps(2))

lemma rerun:
  "\<exists>cs gs. isochrone_batch triangles str_of ''k'' ''out.csv'' ''GEOID'' (DInt 15) KNone 1
     \<lparr>caller_gdf = two_rows, files = [''out.csv'' \<mapsto> ledger [[]] cs0 [''15''] gs0]\<rparr>
   = (None, \<lparr>caller_gdf = two_rows, files = [''out.csv'' \<mapsto>
        ledger [[], [], []] cs [''15'', ''15'', ''15''] gs]\<rparr>)"
proof -
  have "\<exists>cs gs. batch_loop triangles str_of ''k'' ''out.csv'' (DInt 15) KNone [row0, row1]
          [''out.csv'' \<mapsto> ledger [[]] cs0 [''15''] gs0]
        = (None, [''out.csv'' \<mapsto> ledger [[], [], []] cs [''15'', ''15'', ''15''] gs])"
    by (simp add: loop_step_ledger[OF shp_row0[unfolded table0_def]]
          loop_step_ledger[OF shp_row1[unfolded table1_def]]
          read_column_15 read_column_empty str_int_15 del: batch_loop.simps(2))
       blast
  then obtain cs gs where
    "batch_loop triangles str_of ''k'' ''out.csv'' (DInt 15) KNone [row0, row1]
          [''out.csv'' \<mapsto> ledger [[]] cs0 [''15''] gs0]
        = (None, [''out.csv'' \<mapsto> ledger [[], [], []] cs [''15'', ''15'', ''15''] gs])"
    by blast
  then have "isochrone_batch triangles str_of ''k'' ''out.csv'' ''GEOID'' (DInt 15) KNone 1
     \<lparr>caller_gdf = two_rows, files = [''out.csv'' \<mapsto> ledger [[]] cs0 [''15''] gs0]\<rparr>
   = (None, \<lparr>caller_gdf = two_rows, files = [''out.csv'' \<mapsto>
        ledger [[], [], []] cs [''15'', ''15'', ''15''] gs]\<rparr>)"
    by (simp add: isochrone_batch_def open_ledger chunks_of_one all_unfinished_again
          del: batch_loop.simps)
  then show ?thesis by blast
qed

section \<open>The identifiers in the output file\<close>

text \<open>
  Claim C1 does not hold of the code. With the default \<open>keep_cols=None\<close>, a run on a table with
  the identifiers 17 and 18 and no output file succeeds, and the file it leaves has two rows
  whose field \<open>GEOID\<close> is empty: read back, the identifier column holds \<open>NaN\<close> twice, and no
  row belongs to the identifier 17 or 18.
\<close>

theorem isochrone_batch_default_output_has_no_identifier:
  "isochrone_batch triangles str_of ''k'' ''out.csv'' ''GEOID'' (DInt 15) KNone 5
     \<lparr>caller_gdf = two_rows, files = Map.empty\<rparr>
   = (None, \<lparr>caller_gdf = two_rows, files = [''out.csv'' \<mapsto>
        ledger [[], []] [str_of (CCoords [2, 1]), str_of (CCoords [4, 3])] [''15'', ''15'']
          [str_of (CPoly (Polygon [(0, 0), (2, 1), (1, 2)])),
           str_of (CPoly (Polygon [(0, 0), (2, 1), (1, 2)]))]]\<rparr>) \<and>
   and_then (read_csv (ledger [[], []] cs [''15'', ''15''] gs))
     (\<lambda>out_df. get_column out_df (SCol ''GEOID'')) = Inr [CNaN, CNaN]"
  by (simp add: first_run read_csv_ledger get_column_def read_ledger_def read_column_empty)

text \<open>
  Claim C2 does not hold of the code. With the default \<open>keep_cols=None\<close>, the run that follows
  a successful run, with the same arguments, finds both identifiers unfinished and appends the
  two rows again: the file has four rows.
\<close>

theorem isochrone_batch_second_run_appends_again:
  "isochrone_batch triangles str_of ''k'' ''out.csv'' ''GEOID'' (DInt 15) KNone 5
     \<lparr>caller_gdf = two_rows, files = Map.empty\<rparr>
   = (None, \<lparr>caller_gdf = two_rows, files = [''out.csv'' \<mapsto>
        ledger [[], []] [str_of (CCoords [2, 1]), str_of (CCoords [4, 3])] [''15'', ''15'']
          [str_of (CPoly (Polygon [(0, 0), (2, 1), (1, 2)])),
           str_of (CPoly (Polygon [(0, 0), (2, 1), (1, 2)]))]]\<rparr>) \<and>
   unfinished_idx two_rows
     (read_ledger [[], []] [str_of (CCoords [2, 1]), str_of (CCoords [4, 3])] [''15'', ''15'']
          [str_of (CPoly (Polygon [(0, 0), (2, 1), (1, 2)])),
           str_of (CPoly (Polygon [(0, 0), (2, 1), (1, 2)]))]) ''GEOID''
   = Inr [CInt 17, CInt 18] \<and>
   (\<exists>cs gs.
      isochrone_batch triangles str_of ''k'' ''out.csv'' ''GEOID'' (DInt 15) KNone 5
        \<lparr>caller_gdf = two_rows, files = [''out.csv'' \<mapsto>
           ledger [[], []] [str_of (CCoords [2, 1]), str_of (CCoords [4, 3])] [''15'', ''15'']
             [str_of (CPoly (Polygon [(0, 0), (2, 1), (1, 2)])),
              str_of (CPoly (Polygon [(0, 0), (2, 1), (1, 2)]))]]\<rparr>
      = (None, \<lparr>caller_gdf = two_rows, files = [''out.csv'' \<mapsto>
           ledger [[], [], [], []] cs [''15'', ''15'', ''15'', ''15''] gs]\<rparr>))"
proof (intro conjI)
  show "unfinished_idx two_rows
     (read_ledger [[], []] [str_of (CCoords [2, 1]), str_of (CCoords [4, 3])] [''15'', ''15'']
          [str_of (CPoly (Polygon [(0, 0), (2, 1), (1, 2)])),
           str_of (CPoly (Polygon [(0, 0), (2, 1), (1, 2)]))]) ''GEOID''
   = Inr [CInt 17, CInt 18]"
    by (rule still_unfinished) simp
qed (rule first_run, rule second_run)

text \<open>
  Claim C3 does not hold of the code. With the default \<open>keep_cols=None\<close> and chunks of one
  record, a run whose routing fails in the second chunk raises and leaves the row of the first
  chunk in the file, as the claim says. The run that follows, with the same arguments and a
  routing that answers, processes the first chunk again and then the second: the file has
  three rows, not two.
\<close>

theorem isochrone_batch_rerun_repeats_finished_chunk:
  "isochrone_batch fails_at_second str_of ''k'' ''out.csv'' ''GEOID'' (DInt 15) KNone 1
     \<lparr>caller_gdf = two_rows, files = Map.empty\<rparr>
   = (Some RoutingError, \<lparr>caller_gdf = two_rows, files = [''out.csv'' \<mapsto>
        ledger [[]] [str_of (CCoords [2, 1])] [''15'']
          [str_of (CPoly (Polygon [(0, 0), (2, 1), (1, 2)]))]]\<rparr>) \<and>
   (\<exists>cs gs.
      isochrone_batch triangles str_of ''k'' ''out.csv'' ''GEOID'' (DInt 15) KNone 1
        \<lparr>caller_gdf = two_rows, files = [''out.csv'' \<mapsto>
           ledger [[]] [str_of (CCoords [2, 1])] [''15'']
             [str_of (CPoly (Polygon [(0, 0), (2, 1), (1, 2)]))]]\<rparr>
      = (None, \<lparr>caller_gdf = two_rows, files = [''out.csv'' \<mapsto>
           ledger [[], [], []] cs [''15'', ''15'', ''15''] gs]\<rparr>))"
  by (intro conjI) (rule failed_run, rule rerun)

section \<open>The caller's table\<close>

lemma caller_gdf_after:
  "caller_gdf (snd (isochrone_batch r str_of key out mv duration keep_cols n w)) =
     (case open_output str_of out mv w of
        Inl e \<Rightarrow> caller_gdf w
      | Inr opened \<Rightarrow> caller_gdf (snd opened))"
  by (auto simp: isochrone_batch_def Let_def split: sum.splits prod.splits)

lemma row_labels_put_column [simp]: "row_labels (put_column f c v) = row_labels f"
  by (simp add: put_column_def)

lemma map_of_replace_other:
  "c' \<noteq> c \<Longrightarrow> map_of (map (\<lambda>kv. if fst kv = c then (c, v) else kv) xs) c' = map_of xs c'"
  by (induction xs) auto

lemma map_of_replace_same:
  "map_of xs c \<noteq> None \<Longrightarrow> map_of (map (\<lambda>kv. if fst kv = c then (c, v) else kv) xs) c = Some v"
  by (induction xs) (auto split: if_splits)

lemma names_replace:
  "map fst (map (\<lambda>kv. if fst kv = c then (c, v) else kv) xs) = map fst xs"
  by (induction xs) auto

lemma put_existing_column:
  assumes "get_column f c = Inr old"
  shows "map fst (cols (put_column f c v)) = map fst (cols f)"
    and "get_column (put_column f c v) c = Inr v"
    and "c' \<noteq> c \<Longrightarrow> map_of (cols (put_column f c v)) c' = map_of (cols f) c'"
proof -
  from assms have ex: "map_of (cols f) c \<noteq> None"
    by (auto simp: get_column_def split: option.splits)
  show "map fst (cols (put_column f c v)) = map fst (cols f)"
    using ex by (auto simp: put_column_def names_replace)
  show "get_column (put_column f c v) c = Inr v"
    using ex by (auto simp: put_column_def get_column_def map_of_replace_same)
  show "c' \<noteq> c \<Longrightarrow> map_of (cols (put_column f c v)) c' = map_of (cols f) c'"
    using ex by (auto simp: put_column_def map_of_replace_other)
qed

lemma open_output_gdf:
  "(case open_output str_of out mv w of Inl e \<Rightarrow> caller_gdf w
    | Inr opened \<Rightarrow> caller_gdf (snd opened)) =
   (case files w out of
      None \<Rightarrow> caller_gdf w
    | Some file \<Rightarrow>
        (case read_csv file of
           Inl e \<Rightarrow> caller_gdf w
         | Inr out_df \<Rightarrow>
             (case and_then (get_column (caller_gdf w) (SCol mv)) astype_int of
                Inl e \<Rightarrow> caller_gdf w
              | Inr ids \<Rightarrow> put_column (caller_gdf w) (SCol mv) ids)))"
  by (auto simp: open_output_def Let_def and_then_def split: option.splits sum.splits)

text \<open>
  Claim C9, as stated, fails: when the output file exists, the run replaces the
  matching-identifier column of the caller's table by its coercion to integers. Here the
  identifier \<open>'17'\<close>, a string, has become the integer 17.
\<close>

theorem isochrone_batch_coerces_caller_column_counterexample:
  "get_column one_text_id (SCol ''GEOID'') = Inr [CStr ''17''] \<and>
   get_column (caller_gdf (snd (isochrone_batch triangles placeholder_text ''k'' ''out.csv''
       ''GEOID'' (DInt 15) KNone 5
       \<lparr>caller_gdf = one_text_id, files = [''out.csv'' \<mapsto> header_only]\<rparr>)))
     (SCol ''GEOID'') = Inr [CInt 17]"
proof -
  have "int_literal ''17'' = Some 17"
    by (simp add: int_literal_def digit_val_def upt_rec)
  then show ?thesis
    by (simp add: caller_gdf_after open_output_gdf read_csv_def header_only_def
          get_column_def one_text_id_def astype_int_def to_int_def put_column_def)
qed

text \<open>
  Claim C9, amended. A run never changes the row labels of the caller's table, its column
  names, or a column other than the matching-identifier column. When the output file does not
  exist, the run leaves the whole table unchanged. When the output file exists and can be read,
  and the matching-identifier column can be coerced to integers, the run leaves the coerced
  column in the caller's table.
\<close>

theorem isochrone_batch_caller_table:
  "row_labels (caller_gdf (snd (isochrone_batch r str_of key out mv duration keep_cols n w)))
     = row_labels (caller_gdf w) \<and>
   map fst (cols (caller_gdf (snd (isochrone_batch r str_of key out mv duration keep_cols n w))))
     = map fst (cols (caller_gdf w)) \<and>
   (\<forall>c. c \<noteq> SCol mv \<longrightarrow>
      map_of (cols (caller_gdf (snd (isochrone_batch r str_of key out mv duration keep_cols n w)))) c
        = map_of (cols (caller_gdf w)) c) \<and>
   (files w out = None \<longrightarrow>
      caller_gdf (snd (isochrone_batch r str_of key out mv duration keep_cols n w)) = caller_gdf w) \<and>
   (\<forall>file out_df ids.
      files w out = Some file \<and> read_csv file = Inr out_df \<and>
      and_then (get_column (caller_gdf w) (SCol mv)) astype_int = Inr ids \<longrightarrow>
      get_column (caller_gdf (snd (isochrone_batch r str_of key out mv duration keep_cols n w)))
        (SCol mv) = Inr ids)"
proof -
  let ?g = "caller_gdf w"
  let ?g' = "caller_gdf (snd (isochrone_batch r str_of key out mv duration keep_cols n w))"
  have g': "?g' = (case files w out of
      None \<Rightarrow> ?g
    | Some file \<Rightarrow>
        (case read_csv file of
           Inl e \<Rightarrow> ?g
         | Inr out_df \<Rightarrow>
             (case and_then (get_column ?g (SCol mv)) astype_int of
                Inl e \<Rightarrow> ?g
              | Inr ids \<Rightarrow> put_column ?g (SCol mv) ids)))"
    by (simp only: caller_gdf_after open_output_gdf)
  have col: "\<exists>old. get_column ?g (SCol mv) = Inr old"
    if "and_then (get_column ?g (SCol mv)) astype_int = Inr ids" for ids
    using that by (cases "get_column ?g (SCol mv)") simp_all
  have a: "row_labels ?g' = row_labels ?g"
    unfolding g' by (simp split: option.splits sum.splits)
  have b: "map fst (cols ?g') = map fst (cols ?g)"
    unfolding g' using col put_existing_column(1)
    by (auto split: option.splits sum.splits)
  have c: "\<forall>c. c \<noteq> SCol mv \<longrightarrow> map_of (cols ?g') c = map_of (cols ?g) c"
    unfolding g' using col put_existing_column(3)
    by (auto split: option.splits sum.splits)
  have d: "files w out = None \<longrightarrow> ?g' = ?g"
    unfolding g' by simp
  have e: "\<forall>file out_df ids.
      files w out = Some file \<and> read_csv file = Inr out_df \<and>
      and_then (get_column ?g (SCol mv)) astype_int = Inr ids \<longrightarrow>
      get_column ?g' (SCol mv) = Inr ids"
    unfolding g' using col put_existing_column(2) by auto
  from a b c d e show ?thesis by (intro conjI)
qed

theorem isochrone_batch_caller_table_witness:
  "row_labels (caller_gdf (snd (isochrone_batch triangles placeholder_text ''k'' ''out.csv''
       ''GEOID'' (DInt 15) KNone 5
       \<lparr>caller_gdf = one_text_id, files = [''out.csv'' \<mapsto> header_only]\<rparr>))) = [0] \<and>
   map_of (cols (caller_gdf (snd (isochrone_batch triangles placeholder_text ''k'' ''out.csv''
       ''GEOID'' (DInt 15) KNone 5
       \<lparr>caller_gdf = one_text_id, files = [''out.csv'' \<mapsto> header_only]\<rparr>))))
     (SCol ''geometry'') = Some [CGeom 1 2] \<and>
   get_column (caller_gdf (snd (isochrone_batch triangles placeholder_text ''k'' ''out.csv''
       ''GEOID'' (DInt 15) KNone 5
       \<lparr>caller_gdf = one_text_id, files = [''out.csv'' \<mapsto> header_only]\<rparr>)))
     (SCol ''GEOID'') = Inr [CInt 17] \<and>
   caller_gdf (snd (isochrone_batch triangles placeholder_text ''k'' ''out.csv''
       ''GEOID'' (DInt 15) KNone 5 \<lparr>caller_gdf = one_text_id, files = Map.empty\<rparr>))
     = one_text_id"
proof -
  let ?w = "\<lparr>caller_gdf = one_text_id, files = [''out.csv'' \<mapsto> header_only]\<rparr>"
  let ?v = "\<lparr>caller_gdf = one_text_id, files = Map.empty\<rparr>"
  note A = isochrone_batch_caller_table[of triangles placeholder_text "''k''" "''out.csv''"
      "''GEOID''" "DInt 15" KNone 5 ?w]
  note B = isochrone_batch_caller_table[of triangles placeholder_text "''k''" "''out.csv''"
      "''GEOID''" "DInt 15" KNone 5 ?v]
  have lit: "int_literal ''17'' = Some 17"
    by (simp add: int_literal_def digit_val_def upt_rec)
  have fl: "files ?w ''out.csv'' = Some header_only" by simp
  have rd: "read_csv header_only = Inr \<lparr>row_labels = [], cols = [(SCol ''GEOID'', [])]\<rparr>"
    by (simp add: read_csv_def header_only_def read_column_def range_index_def)
  have ids: "and_then (get_column (caller_gdf ?w) (SCol ''GEOID'')) astype_int = Inr [CInt 17]"
    by (simp add: get_column_def one_text_id_def astype_int_def to_int_def lit)
  have a: "row_labels (caller_gdf (snd (isochrone_batch triangles placeholder_text ''k''
       ''out.csv'' ''GEOID'' (DInt 15) KNone 5 ?w))) = [0]"
    using A[THEN conjunct1] by (simp add: one_text_id_def)
  have "SCol ''geometry'' \<noteq> SCol ''GEOID''" by simp
  with A[THEN conjunct2, THEN conjunct2, THEN conjunct1]
  have b: "map_of (cols (caller_gdf (snd (isochrone_batch triangles placeholder_text ''k''
       ''out.csv'' ''GEOID'' (DInt 15) KNone 5 ?w)))) (SCol ''geometry'') = Some [CGeom 1 2]"
    by (simp add: one_text_id_def)
  from A[THEN conjunct2, THEN conjunct2, THEN conjunct2, THEN conjunct2] fl rd ids
  have c: "get_column (caller_gdf (snd (isochrone_batch triangles placeholder_text ''k''
       ''out.csv'' ''GEOID'' (DInt 15) KNone 5 ?w))) (SCol ''GEOID'') = Inr [CInt 17]"
    by blast
  from B[THEN conjunct2, THEN conjunct2, THEN conjunct2, THEN conjunct1]
  have d: "caller_gdf (snd (isochrone_batch triangles placeholder_text ''k'' ''out.csv''
       ''GEOID'' (DInt 15) KNone 5 ?v)) = one_text_id"
    by simp
  from a b c d show ?thesis by (intro conjI)
qed

end
